theory Spec2Isabelle
  imports Main
begin

section \<open>Python values\<close>

text \<open>
  The OAuth subsystem of the dashboard (\<^verbatim>\<open>src/auth/oauth_manager.py\<close>,
  \<^verbatim>\<open>src/auth/callback_server.py\<close> and the grant selection of \<^verbatim>\<open>main.py\<close>) handles
  dictionaries of type \<^verbatim>\<open>Dict[str, Any]\<close>: bank and application configurations, token
  records decoded from the token endpoint, and the callback result. Their values are the
  values JSON can carry. \<open>JNull\<close> is Python's \<^verbatim>\<open>None\<close>, \<open>JArr\<close> a list and \<open>JObj\<close> a
  dict with string keys, in insertion order. Floating point numbers are left out. A Python
  \<^verbatim>\<open>str\<close> is a \<open>string\<close> whose characters are the code points U+0000 to U+00FF.
\<close>

datatype json =
    JNull
  | JBool bool
  | JInt int
  | JStr string
  | JArr "json list"
  | JObj "(string \<times> json) list"

type_synonym pydict = "(string \<times> json) list"

text \<open>\<^verbatim>\<open>d.get(k)\<close> is \<^verbatim>\<open>None\<close> for a missing key; \<^verbatim>\<open>d[k]\<close> raises; \<^verbatim>\<open>not x\<close> is Python's truth value.\<close>

definition dict_get :: "pydict \<Rightarrow> string \<Rightarrow> json" where
  "dict_get d k = (case map_of d k of None \<Rightarrow> JNull | Some v \<Rightarrow> v)"

definition dict_get_default :: "pydict \<Rightarrow> string \<Rightarrow> json \<Rightarrow> json" where
  "dict_get_default d k dflt = (case map_of d k of None \<Rightarrow> dflt | Some v \<Rightarrow> v)"

fun truthy :: "json \<Rightarrow> bool" where
  "truthy JNull = False"
| "truthy (JBool b) = b"
| "truthy (JInt i) = (i \<noteq> 0)"
| "truthy (JStr s) = (s \<noteq> [])"
| "truthy (JArr xs) = (xs \<noteq> [])"
| "truthy (JObj kvs) = (kvs \<noteq> [])"

text \<open>
  A dict built by Python never holds a key twice; \<open>wf_json\<close> says so for every dict inside
  a value.
\<close>

fun wf_json :: "json \<Rightarrow> bool" where
  "wf_json (JArr xs) = (\<forall>x \<in> set xs. wf_json x)"
| "wf_json (JObj kvs) = (distinct (map fst kvs) \<and> (\<forall>kv \<in> set kvs. wf_json (snd kv)))"
| "wf_json _ = True"

section \<open>\<^verbatim>\<open>json.dumps\<close>\<close>

text \<open>
  The standard library's encoder with its defaults: \<^verbatim>\<open>ensure_ascii=True\<close>, the separators
  \<^verbatim>\<open>", "\<close> and \<^verbatim>\<open>": "\<close>. \<open>escape_char\<close> is the replacement function of
  \<^verbatim>\<open>py_encode_basestring_ascii\<close>: the short escapes of \<^verbatim>\<open>ESCAPE_DCT\<close>, the printable ASCII
  characters as they are, everything else as \<^verbatim>\<open>\uXXXX\<close> in lower-case hexadecimal.
\<close>

definition hex_digit :: "nat \<Rightarrow> char" where
  "hex_digit n = ''0123456789abcdef'' ! (n mod 16)"

definition hex_val :: "char \<Rightarrow> nat option" where
  "hex_val c =
     (let n = (of_char c :: nat) in
      if 48 \<le> n \<and> n \<le> 57 then Some (n - 48)
      else if 97 \<le> n \<and> n \<le> 102 then Some (n - 87)
      else if 65 \<le> n \<and> n \<le> 70 then Some (n - 55)
      else None)"

definition escape_char :: "char \<Rightarrow> string" where
  "escape_char c =
     (if c = CHR 0x5C then [CHR 0x5C, CHR 0x5C]
      else if c = CHR 0x22 then [CHR 0x5C, CHR 0x22]
      else if c = CHR 0x08 then [CHR 0x5C, CHR ''b'']
      else if c = CHR 0x0C then [CHR 0x5C, CHR ''f'']
      else if c = CHR 0x0A then [CHR 0x5C, CHR ''n'']
      else if c = CHR 0x0D then [CHR 0x5C, CHR ''r'']
      else if c = CHR 0x09 then [CHR 0x5C, CHR ''t'']
      else if 32 \<le> (of_char c :: nat) \<and> (of_char c :: nat) \<le> 126 then [c]
      else (let n = (of_char c :: nat) in
            [CHR 0x5C, CHR ''u'', hex_digit (n div 4096), hex_digit (n div 256),
             hex_digit (n div 16), hex_digit n]))"

definition encode_basestring_ascii :: "string \<Rightarrow> string" where
  "encode_basestring_ascii s = CHR 0x22 # concat (map escape_char s) @ [CHR 0x22]"

definition digit_char :: "nat \<Rightarrow> char" where
  "digit_char d = ''0123456789'' ! (d mod 10)"

function digits_of :: "nat \<Rightarrow> string" where
  "digits_of n = (if n < 10 then [digit_char n] else digits_of (n div 10) @ [digit_char (n mod 10)])"
  by pat_completeness auto
termination
  by (relation "measure id") auto

declare digits_of.simps [simp del]

definition int_repr :: "int \<Rightarrow> string" where
  "int_repr i = (if i < 0 then CHR ''-'' # digits_of (nat (- i)) else digits_of (nat i))"

fun join_items :: "string list \<Rightarrow> string" where
  "join_items [] = []"
| "join_items [x] = x"
| "join_items (x # y # ys) = x @ '', '' @ join_items (y # ys)"

fun dumps :: "json \<Rightarrow> string" where
  "dumps JNull = ''null''"
| "dumps (JBool b) = (if b then ''true'' else ''false'')"
| "dumps (JInt i) = int_repr i"
| "dumps (JStr s) = encode_basestring_ascii s"
| "dumps (JArr xs) = ''['' @ join_items (map dumps xs) @ '']''"
| "dumps (JObj kvs) =
     ''{'' @ join_items (map (\<lambda>(k, v). encode_basestring_ascii k @ '': '' @ dumps v) kvs) @ ''}''"

section \<open>\<^verbatim>\<open>json.loads\<close>\<close>

text \<open>
  The decoder follows \<^verbatim>\<open>json.scanner.py_make_scanner\<close> and \<^verbatim>\<open>json.decoder\<close>:
  \<open>scanstring\<close> is \<^verbatim>\<open>py_scanstring\<close> in strict mode (it starts after the opening quote),
  \<open>match_number\<close> is \<^verbatim>\<open>NUMBER_RE\<close>, \<open>parse_array\<close> and \<open>parse_object\<close> are the loops of
  \<^verbatim>\<open>JSONArray\<close> and \<^verbatim>\<open>JSONObject\<close>, and \<open>loads\<close> is \<^verbatim>\<open>JSONDecoder.decode\<close>, which
  refuses trailing data. \<open>None\<close> stands for \<^verbatim>\<open>JSONDecodeError\<close>. An integer followed by a
  fraction or an exponent would be a float: the model has none and answers \<open>None\<close>, as it
  does for an escape beyond U+00FF. The recursion runs on fuel, one unit per nested call;
  \<open>loads\<close> supplies the length of the text.
\<close>

definition is_ws :: "char \<Rightarrow> bool" where
  "is_ws c = (c = CHR '' '' \<or> c = CHR 0x09 \<or> c = CHR 0x0A \<or> c = CHR 0x0D)"

definition skip_ws :: "string \<Rightarrow> string" where
  "skip_ws s = dropWhile is_ws s"

definition backslash :: "char \<Rightarrow> char option" where
  "backslash e =
     (if e = CHR 0x22 then Some (CHR 0x22)
      else if e = CHR 0x5C then Some (CHR 0x5C)
      else if e = CHR ''/'' then Some (CHR ''/'')
      else if e = CHR ''b'' then Some (CHR 0x08)
      else if e = CHR ''f'' then Some (CHR 0x0C)
      else if e = CHR ''n'' then Some (CHR 0x0A)
      else if e = CHR ''r'' then Some (CHR 0x0D)
      else if e = CHR ''t'' then Some (CHR 0x09)
      else None)"

definition decode_uXXXX :: "char \<Rightarrow> char \<Rightarrow> char \<Rightarrow> char \<Rightarrow> char option" where
  "decode_uXXXX a b c d =
     (case (hex_val a, hex_val b, hex_val c, hex_val d) of
        (Some x, Some y, Some z, Some w) \<Rightarrow>
          (let uni = ((x * 16 + y) * 16 + z) * 16 + w
           in if uni < 256 then Some (char_of uni) else None)
      | _ \<Rightarrow> None)"

fun scanstring :: "string \<Rightarrow> (string \<times> string) option" where
  "scanstring [] = None"
| "scanstring (c # cs) =
     (if c = CHR 0x22 then Some ([], cs)
      else if c = CHR 0x5C then
        (case cs of
           [] \<Rightarrow> None
         | e # cs1 \<Rightarrow>
             if e = CHR ''u'' then
               (case cs1 of
                  h1 # h2 # h3 # h4 # cs2 \<Rightarrow>
                    (case decode_uXXXX h1 h2 h3 h4 of
                       None \<Rightarrow> None
                     | Some ch \<Rightarrow>
                         (case scanstring cs2 of
                            None \<Rightarrow> None
                          | Some (t, r) \<Rightarrow> Some (ch # t, r)))
                | _ \<Rightarrow> None)
             else
               (case backslash e of
                  None \<Rightarrow> None
                | Some ch \<Rightarrow>
                    (case scanstring cs1 of
                       None \<Rightarrow> None
                     | Some (t, r) \<Rightarrow> Some (ch # t, r))))
      else if (of_char c :: nat) < 32 then None
      else (case scanstring cs of
              None \<Rightarrow> None
            | Some (t, r) \<Rightarrow> Some (c # t, r)))"

definition is_digit :: "char \<Rightarrow> bool" where
  "is_digit c = (48 \<le> (of_char c :: nat) \<and> (of_char c :: nat) \<le> 57)"

definition digits_value :: "string \<Rightarrow> nat" where
  "digits_value ds = foldl (\<lambda>a c. 10 * a + (of_char c - 48)) 0 ds"

definition starts_float :: "string \<Rightarrow> bool" where
  "starts_float r = (case r of [] \<Rightarrow> False | c # _ \<Rightarrow> c = CHR ''.'' \<or> c = CHR ''e'' \<or> c = CHR ''E'')"

definition match_integer :: "string \<Rightarrow> (nat \<times> string) option" where
  "match_integer s =
     (case s of
        [] \<Rightarrow> None
      | d # r \<Rightarrow>
          if d = CHR ''0'' then Some (0, r)
          else if is_digit d then Some (digits_value (takeWhile is_digit s), dropWhile is_digit s)
          else None)"

definition match_number :: "string \<Rightarrow> (int \<times> string) option" where
  "match_number s =
     (case s of
        [] \<Rightarrow> None
      | c # r \<Rightarrow>
          (case (if c = CHR ''-'' then match_integer r else match_integer s) of
             None \<Rightarrow> None
           | Some (n, rest) \<Rightarrow>
               if starts_float rest then None
               else Some (if c = CHR ''-'' then - int n else int n, rest)))"

fun dict_set :: "(string \<times> json) list \<Rightarrow> string \<Rightarrow> json \<Rightarrow> (string \<times> json) list" where
  "dict_set [] k v = [(k, v)]"
| "dict_set ((k', v') # d) k v = (if k' = k then (k', v) # d else (k', v') # dict_set d k v)"

definition dict_of_pairs :: "(string \<times> json) list \<Rightarrow> (string \<times> json) list" where
  "dict_of_pairs ps = foldl (\<lambda>d (k, v). dict_set d k v) [] ps"

fun scan_once :: "nat \<Rightarrow> string \<Rightarrow> (json \<times> string) option"
  and parse_array :: "nat \<Rightarrow> string \<Rightarrow> json list \<Rightarrow> (json \<times> string) option"
  and parse_object :: "nat \<Rightarrow> string \<Rightarrow> (string \<times> json) list \<Rightarrow> (json \<times> string) option"
where
  "scan_once 0 s = None"
| "scan_once (Suc n) s =
     (case s of
        [] \<Rightarrow> None
      | c # r \<Rightarrow>
          if c = CHR 0x22 then
            (case scanstring r of None \<Rightarrow> None | Some (t, r1) \<Rightarrow> Some (JStr t, r1))
          else if c = CHR ''{'' then
            (case skip_ws r of
               [] \<Rightarrow> None
             | c1 # r1 \<Rightarrow>
                 if c1 = CHR ''}'' then Some (JObj [], r1)
                 else if c1 = CHR 0x22 then parse_object n r1 []
                 else None)
          else if c = CHR ''['' then
            (case skip_ws r of
               [] \<Rightarrow> None
             | c1 # r1 \<Rightarrow>
                 if c1 = CHR '']'' then Some (JArr [], r1)
                 else parse_array n (c1 # r1) [])
          else if take 4 s = ''null'' then Some (JNull, drop 4 s)
          else if take 4 s = ''true'' then Some (JBool True, drop 4 s)
          else if take 5 s = ''false'' then Some (JBool False, drop 5 s)
          else (case match_number s of None \<Rightarrow> None | Some (i, r1) \<Rightarrow> Some (JInt i, r1)))"
| "parse_array 0 s acc = None"
| "parse_array (Suc n) s acc =
     (case scan_once n s of
        None \<Rightarrow> None
      | Some (v, r) \<Rightarrow>
          (case skip_ws r of
             [] \<Rightarrow> None
           | c # r1 \<Rightarrow>
               if c = CHR '']'' then Some (JArr (acc @ [v]), r1)
               else if c = CHR '','' then parse_array n (skip_ws r1) (acc @ [v])
               else None))"
| "parse_object 0 s pairs = None"
| "parse_object (Suc n) s pairs =
     (case scanstring s of
        None \<Rightarrow> None
      | Some (key, r) \<Rightarrow>
          (case skip_ws r of
             [] \<Rightarrow> None
           | c # r1 \<Rightarrow>
               if c \<noteq> CHR '':'' then None
               else
                 (case scan_once n (skip_ws r1) of
                    None \<Rightarrow> None
                  | Some (v, r2) \<Rightarrow>
                      (case skip_ws r2 of
                         [] \<Rightarrow> None
                       | c2 # r3 \<Rightarrow>
                           if c2 = CHR ''}'' then Some (JObj (dict_of_pairs (pairs @ [(key, v)])), r3)
                           else if c2 = CHR '','' then
                             (case skip_ws r3 of
                                [] \<Rightarrow> None
                              | c3 # r4 \<Rightarrow>
                                  if c3 = CHR 0x22 then parse_object n r4 (pairs @ [(key, v)])
                                  else None)
                           else None))))"

definition loads :: "string \<Rightarrow> json option" where
  "loads s =
     (case scan_once (length s) (skip_ws s) of
        None \<Rightarrow> None
      | Some (v, r) \<Rightarrow> if skip_ws r = [] then Some v else None)"

section \<open>Bytes and UTF-8\<close>

text \<open>
  \<^verbatim>\<open>str.encode('utf-8')\<close> and \<^verbatim>\<open>bytes.decode('utf-8')\<close> on the code points of the model:
  one byte below U+0080, two bytes up to U+00FF. \<open>None\<close> stands for \<^verbatim>\<open>UnicodeDecodeError\<close>;
  a sequence that would decode beyond U+00FF is refused as well.
\<close>

type_synonym bytes = "char list"

definition utf8_encode_char :: "char \<Rightarrow> bytes" where
  "utf8_encode_char c =
     (let n = (of_char c :: nat)
      in if n < 128 then [c] else [char_of (192 + n div 64), char_of (128 + n mod 64)])"

definition utf8_encode :: "string \<Rightarrow> bytes" where
  "utf8_encode s = concat (map utf8_encode_char s)"

fun utf8_decode :: "bytes \<Rightarrow> string option" where
  "utf8_decode [] = Some []"
| "utf8_decode (b # bs) =
     (if (of_char b :: nat) < 128 then
        (case utf8_decode bs of None \<Rightarrow> None | Some s \<Rightarrow> Some (b # s))
      else if (of_char b :: nat) = 194 \<or> (of_char b :: nat) = 195 then
        (case bs of
           [] \<Rightarrow> None
         | c # bs1 \<Rightarrow>
             if 128 \<le> (of_char c :: nat) \<and> (of_char c :: nat) < 192 then
               (case utf8_decode bs1 of
                  None \<Rightarrow> None
                | Some s \<Rightarrow> Some (char_of (((of_char b :: nat) - 192) * 64 + ((of_char c :: nat) - 128)) # s))
             else None)
      else None)"

section \<open>The token cipher\<close>

text \<open>
  \<^verbatim>\<open>cryptography.fernet.Fernet\<close> is a library: the manager holds one instance and only calls
  \<^verbatim>\<open>encrypt\<close> and \<^verbatim>\<open>decrypt\<close>. The model takes the instance as a parameter. \<open>encrypt\<close> has
  the fresh randomness of the call (initialisation vector and timestamp) as its first
  argument; \<open>decrypt\<close> answers \<open>None\<close> where the library raises \<^verbatim>\<open>InvalidToken\<close>.
  \<open>fernet_law\<close> is the library's contract: a token decrypts to the bytes it was made from.
\<close>

record fernet =
  encrypt :: "nat \<Rightarrow> bytes \<Rightarrow> bytes"
  decrypt :: "bytes \<Rightarrow> bytes option"

definition fernet_law :: "fernet \<Rightarrow> bool" where
  "fernet_law f = (\<forall>iv p. decrypt f (encrypt f iv p) = Some p)"

text \<open>
  A small instance that satisfies the contract, for evaluating the manager on concrete
  inputs: a version byte, the byte of the randomness, the reversed plaintext.
\<close>

definition demo_fernet :: fernet where
  "demo_fernet =
     \<lparr> encrypt = (\<lambda>iv p. CHR 0x80 # char_of iv # rev p),
       decrypt = (\<lambda>t. case t of
                         v # i # body \<Rightarrow> if v = CHR 0x80 then Some (rev body) else None
                       | _ \<Rightarrow> None) \<rparr>"

section \<open>Exceptions\<close>

text \<open>
  Every exception the subsystem raises or receives is an \<open>error\<close>; all of them are
  subclasses of \<^verbatim>\<open>Exception\<close>. \<open>OAuthError\<close> carries what its message is formatted from.
\<close>

datatype error =
    OAuthError oauth_message
  | KeyError string
  | TypeError
  | AttributeError
  | InvalidToken
  | UnicodeDecodeError
  | JSONDecodeError
  | ContentTypeError
  | TimeoutError
  | ClientError string
  | SSLError string
  | OSError string
  | ValueError string
and oauth_message =
    TokenExchangeStatus int string
  | TokenExchangeTimedOut
  | TokenExchangeFailed error
  | CredentialsNotProvided
  | PasswordGrantStatus int string
  | NoStoredToken string
  | NoRefreshToken string
  | TokenRefreshStatus int string
  | TokenRefreshFailed error
  | TlsNotConfigured
  | AuthorizationError json
  | NoAuthorizationCode

definition dict_item :: "pydict \<Rightarrow> string \<Rightarrow> error + json" where
  "dict_item d k = (case map_of d k of None \<Rightarrow> Inl (KeyError k) | Some v \<Rightarrow> Inr v)"

text \<open>\<^verbatim>\<open>x.get(k)\<close> on a decoded value: only a dict has the method.\<close>

definition py_get :: "json \<Rightarrow> string \<Rightarrow> error + json" where
  "py_get x k = (case x of JObj d \<Rightarrow> Inr (dict_get d k) | _ \<Rightarrow> Inl AttributeError)"

section \<open>The environment\<close>

text \<open>
  What the subsystem does to the outside world is recorded as a list of events, in order.
  What the outside world answers is an argument of the operation: the outcome of the one
  POST to the token endpoint, the randomness of the cipher and of \<^verbatim>\<open>secrets\<close>, the outcome
  of loading the certificate and binding the socket, and the requests the listener serves
  during each one-second sleep.
\<close>

record request =
  path :: string
  query :: "(string \<times> string) list"

datatype response = Response nat string

datatype warning =
    SimulationNotForProduction string
  | BrowserNotLaunched
  | BrowserLaunchFailed error
  | AuthCodeFlowFailed error

datatype event =
    HttpPost json "(string \<times> json) list"
  | BrowserOpen json "(string \<times> json) list"
  | ListenerStart json json
  | Served request response
  | ListenerCleanup
  | LogWarning warning

text \<open>
  The POST either raises (a timeout is \<open>TimeoutError\<close>), or answers with a status, the text
  of the body and the outcome of \<^verbatim>\<open>response.json()\<close>.
\<close>

datatype http_result =
    HttpRaises error
  | HttpResponse int string "error + json"

section \<open>\<^verbatim>\<open>OAuthManager\<close>\<close>

record oauth_manager =
  config :: pydict
  timeout :: json
  retry_attempts :: json
  cipher_suite :: fernet
  tokens :: "string \<rightharpoonup> bytes"

text \<open>\<^verbatim>\<open>__init__\<close>; the cipher built from the encryption key is the parameter \<open>cs\<close>.\<close>

definition init_manager :: "pydict \<Rightarrow> fernet \<Rightarrow> oauth_manager" where
  "init_manager oauth_config cs =
     \<lparr> config = oauth_config,
       timeout = dict_get_default oauth_config ''timeout'' (JInt 30),
       retry_attempts = dict_get_default oauth_config ''retry_attempts'' (JInt 3),
       cipher_suite = cs,
       tokens = Map.empty \<rparr>"

definition encrypt_token :: "oauth_manager \<Rightarrow> nat \<Rightarrow> json \<Rightarrow> bytes" where
  "encrypt_token m iv token = encrypt (cipher_suite m) iv (utf8_encode (dumps token))"

definition decrypt_token :: "oauth_manager \<Rightarrow> bytes \<Rightarrow> error + json" where
  "decrypt_token m encrypted_token =
     (case decrypt (cipher_suite m) encrypted_token of
        None \<Rightarrow> Inl InvalidToken
      | Some plain \<Rightarrow>
          (case utf8_decode plain of
             None \<Rightarrow> Inl UnicodeDecodeError
           | Some token_str \<Rightarrow>
               (case loads token_str of
                  None \<Rightarrow> Inl JSONDecodeError
                | Some token \<Rightarrow> Inr token)))"

text \<open>
  \<^verbatim>\<open>self._tokens[bank_name] = encrypted_token\<close>. The store is a \<^verbatim>\<open>Dict[str, bytes]\<close> and
  every \<^verbatim>\<open>bank_name\<close> parameter is a \<^verbatim>\<open>str\<close>; the model keeps these types, so a name read
  from a configuration that is not a \<^verbatim>\<open>str\<close> stops the operation with \<open>TypeError\<close>.
\<close>

definition store_token :: "oauth_manager \<Rightarrow> json \<Rightarrow> bytes \<Rightarrow> error + oauth_manager" where
  "store_token m bank_name encrypted_token =
     (case bank_name of
        JStr n \<Rightarrow> Inr (m\<lparr>tokens := (tokens m)(n \<mapsto> encrypted_token)\<rparr>)
      | _ \<Rightarrow> Inl TypeError)"

type_synonym 'a outcome = "(error + 'a) \<times> oauth_manager \<times> event list"

subsection \<open>Grants\<close>

text \<open>
  \<^verbatim>\<open>generate_authorization_url\<close>. \<open>state\<close> is the value of \<^verbatim>\<open>secrets.token_urlsafe(32)\<close>.
  The URL is kept as the configured base and the parameters given to \<^verbatim>\<open>urlencode\<close>.
\<close>

definition generate_authorization_url ::
  "pydict \<Rightarrow> string \<Rightarrow> error + ((json \<times> (string \<times> json) list) \<times> string)" where
  "generate_authorization_url bank_config state =
     (case dict_item bank_config ''client_id'' of
        Inl e \<Rightarrow> Inl e
      | Inr client_id \<Rightarrow>
     (case dict_item bank_config ''redirect_uri'' of
        Inl e \<Rightarrow> Inl e
      | Inr redirect_uri \<Rightarrow>
          let params = [(''response_type'', JStr ''code''), (''client_id'', client_id),
                        (''redirect_uri'', redirect_uri), (''state'', JStr state)];
              scope = dict_get bank_config ''scope'';
              params1 = (if truthy scope then params @ [(''scope'', scope)] else params)
          in (case dict_item bank_config ''authorization_url'' of
                Inl e \<Rightarrow> Inl e
              | Inr base \<Rightarrow>
             (case dict_item bank_config ''name'' of
                Inl e \<Rightarrow> Inl e
              | Inr _ \<Rightarrow> Inr ((base, params1), state)))))"

text \<open>
  The \<^verbatim>\<open>try\<close> block of \<^verbatim>\<open>exchange_code_for_token\<close>: the POST, then on status 200 the decoded
  body is encrypted and stored under the bank's name.
\<close>

definition exchange_request ::
  "oauth_manager \<Rightarrow> pydict \<Rightarrow> (string \<times> json) list \<Rightarrow> http_result \<Rightarrow> nat \<Rightarrow> json outcome" where
  "exchange_request m bank_config token_data http iv =
     (case dict_item bank_config ''token_url'' of
        Inl e \<Rightarrow> (Inl e, m, [])
      | Inr token_url \<Rightarrow>
          (case http of
             HttpRaises e \<Rightarrow> (Inl e, m, [HttpPost token_url token_data])
           | HttpResponse status body decoded \<Rightarrow>
               if status = 200 then
                 (case decoded of
                    Inl e \<Rightarrow> (Inl e, m, [HttpPost token_url token_data])
                  | Inr token_response \<Rightarrow>
                      (case dict_item bank_config ''name'' of
                         Inl e \<Rightarrow> (Inl e, m, [HttpPost token_url token_data])
                       | Inr bank_name \<Rightarrow>
                           (case store_token m bank_name (encrypt_token m iv token_response) of
                              Inl e \<Rightarrow> (Inl e, m, [HttpPost token_url token_data])
                            | Inr m1 \<Rightarrow> (Inr token_response, m1, [HttpPost token_url token_data]))))
               else (Inl (OAuthError (TokenExchangeStatus status body)), m,
                     [HttpPost token_url token_data])))"

text \<open>
  \<^verbatim>\<open>exchange_code_for_token\<close>: the form is built before the \<^verbatim>\<open>try\<close>; inside it a timeout
  becomes "timed out" and every other exception, the \<open>OAuthError\<close> of a status other than
  200 included, is wrapped into a new \<open>OAuthError\<close>. The parameter \<open>state\<close> is there as in
  the source.
\<close>

definition exchange_code_for_token ::
  "oauth_manager \<Rightarrow> json \<Rightarrow> pydict \<Rightarrow> string \<Rightarrow> http_result \<Rightarrow> nat \<Rightarrow> json outcome" where
  "exchange_code_for_token m authorization_code bank_config state http iv =
     (case dict_item bank_config ''redirect_uri'' of
        Inl e \<Rightarrow> (Inl e, m, [])
      | Inr redirect_uri \<Rightarrow>
     (case dict_item bank_config ''client_id'' of
        Inl e \<Rightarrow> (Inl e, m, [])
      | Inr client_id \<Rightarrow>
     (case dict_item bank_config ''client_secret'' of
        Inl e \<Rightarrow> (Inl e, m, [])
      | Inr client_secret \<Rightarrow>
          (case exchange_request m bank_config
                  [(''grant_type'', JStr ''authorization_code''), (''code'', authorization_code),
                   (''redirect_uri'', redirect_uri), (''client_id'', client_id),
                   (''client_secret'', client_secret)] http iv of
             (Inl e, m1, evs) \<Rightarrow>
               if e = TimeoutError then (Inl (OAuthError TokenExchangeTimedOut), m1, evs)
               else (Inl (OAuthError (TokenExchangeFailed e)), m1, evs)
           | (Inr token_response, m1, evs) \<Rightarrow> (Inr token_response, m1, evs)))))"

text \<open>\<^verbatim>\<open>password_grant_for_token\<close>: no \<^verbatim>\<open>try\<close>; what the POST raises goes to the caller.\<close>

definition password_grant_for_token ::
  "oauth_manager \<Rightarrow> pydict \<Rightarrow> http_result \<Rightarrow> nat \<Rightarrow> json outcome" where
  "password_grant_for_token m bank_config http iv =
     (if \<not> truthy (dict_get bank_config ''username'') \<or> \<not> truthy (dict_get bank_config ''password'')
      then (Inl (OAuthError CredentialsNotProvided), m, [])
      else
     (case dict_item bank_config ''username'' of
        Inl e \<Rightarrow> (Inl e, m, [])
      | Inr username \<Rightarrow>
     (case dict_item bank_config ''password'' of
        Inl e \<Rightarrow> (Inl e, m, [])
      | Inr password \<Rightarrow>
     (case dict_item bank_config ''client_id'' of
        Inl e \<Rightarrow> (Inl e, m, [])
      | Inr client_id \<Rightarrow>
     (case dict_item bank_config ''client_secret'' of
        Inl e \<Rightarrow> (Inl e, m, [])
      | Inr client_secret \<Rightarrow>
     (case dict_item bank_config ''token_url'' of
        Inl e \<Rightarrow> (Inl e, m, [])
      | Inr token_url \<Rightarrow>
          let data = [(''grant_type'', JStr ''password''), (''username'', username),
                      (''password'', password), (''client_id'', client_id),
                      (''client_secret'', client_secret)]
          in (case http of
                HttpRaises e \<Rightarrow> (Inl e, m, [HttpPost token_url data])
              | HttpResponse status body decoded \<Rightarrow>
                  if status = 200 then
                    (case decoded of
                       Inl e \<Rightarrow> (Inl e, m, [HttpPost token_url data])
                     | Inr token_response \<Rightarrow>
                         (case dict_item bank_config ''name'' of
                            Inl e \<Rightarrow> (Inl e, m, [HttpPost token_url data])
                          | Inr bank_name \<Rightarrow>
                              (case store_token m bank_name (encrypt_token m iv token_response) of
                                 Inl e \<Rightarrow> (Inl e, m, [HttpPost token_url data])
                               | Inr m1 \<Rightarrow> (Inr token_response, m1, [HttpPost token_url data]))))
                  else (Inl (OAuthError (PasswordGrantStatus status body)), m,
                        [HttpPost token_url data]))))))))"

text \<open>The \<^verbatim>\<open>try\<close> block of \<^verbatim>\<open>refresh_token\<close>, entered with the stored ciphertext.\<close>

definition refresh_request ::
  "oauth_manager \<Rightarrow> string \<Rightarrow> bytes \<Rightarrow> pydict \<Rightarrow> http_result \<Rightarrow> nat \<Rightarrow> json outcome" where
  "refresh_request m bank_name stored bank_config http iv =
     (case decrypt_token m stored of
        Inl e \<Rightarrow> (Inl e, m, [])
      | Inr current_token \<Rightarrow>
     (case py_get current_token ''refresh_token'' of
        Inl e \<Rightarrow> (Inl e, m, [])
      | Inr refresh_token \<Rightarrow>
          if \<not> truthy refresh_token then (Inl (OAuthError (NoRefreshToken bank_name)), m, [])
          else
     (case dict_item bank_config ''client_id'' of
        Inl e \<Rightarrow> (Inl e, m, [])
      | Inr client_id \<Rightarrow>
     (case dict_item bank_config ''client_secret'' of
        Inl e \<Rightarrow> (Inl e, m, [])
      | Inr client_secret \<Rightarrow>
     (case dict_item bank_config ''token_url'' of
        Inl e \<Rightarrow> (Inl e, m, [])
      | Inr token_url \<Rightarrow>
          let token_data = [(''grant_type'', JStr ''refresh_token''), (''refresh_token'', refresh_token),
                            (''client_id'', client_id), (''client_secret'', client_secret)]
          in (case http of
                HttpRaises e \<Rightarrow> (Inl e, m, [HttpPost token_url token_data])
              | HttpResponse status body decoded \<Rightarrow>
                  if status = 200 then
                    (case decoded of
                       Inl e \<Rightarrow> (Inl e, m, [HttpPost token_url token_data])
                     | Inr token_response \<Rightarrow>
                         (Inr token_response,
                          m\<lparr>tokens := (tokens m)(bank_name \<mapsto> encrypt_token m iv token_response)\<rparr>,
                          [HttpPost token_url token_data]))
                  else (Inl (OAuthError (TokenRefreshStatus status body)), m,
                        [HttpPost token_url token_data])))))))"

text \<open>
  \<^verbatim>\<open>refresh_token\<close>: without a stored record it raises before the \<^verbatim>\<open>try\<close>; every exception
  of the \<^verbatim>\<open>try\<close> block is wrapped into an \<open>OAuthError\<close>.
\<close>

definition refresh_token ::
  "oauth_manager \<Rightarrow> string \<Rightarrow> pydict \<Rightarrow> http_result \<Rightarrow> nat \<Rightarrow> json outcome" where
  "refresh_token m bank_name bank_config http iv =
     (case tokens m bank_name of
        None \<Rightarrow> (Inl (OAuthError (NoStoredToken bank_name)), m, [])
      | Some stored \<Rightarrow>
          (case refresh_request m bank_name stored bank_config http iv of
             (Inl e, m1, evs) \<Rightarrow> (Inl (OAuthError (TokenRefreshFailed e)), m1, evs)
           | (Inr token_response, m1, evs) \<Rightarrow> (Inr token_response, m1, evs)))"

text \<open>
  \<^verbatim>\<open>simulate_oauth_flow\<close>: \<open>r1\<close> and \<open>r2\<close> are the two values of
  \<^verbatim>\<open>secrets.token_urlsafe(16)\<close>. It cannot fail.
\<close>

definition mock_token :: "string \<Rightarrow> string \<Rightarrow> json" where
  "mock_token r1 r2 =
     JObj [(''access_token'', JStr (''mock_access_token_'' @ r1)),
           (''token_type'', JStr ''Bearer''),
           (''expires_in'', JInt 3600),
           (''refresh_token'', JStr (''mock_refresh_token_'' @ r2)),
           (''scope'', JStr ''accounts transactions balances'')]"

definition simulate_oauth_flow ::
  "oauth_manager \<Rightarrow> string \<Rightarrow> pydict \<Rightarrow> string \<Rightarrow> string \<Rightarrow> nat \<Rightarrow> json \<times> oauth_manager \<times> event list" where
  "simulate_oauth_flow m bank_name bank_config r1 r2 iv =
     (mock_token r1 r2,
      m\<lparr>tokens := (tokens m)(bank_name \<mapsto> encrypt_token m iv (mock_token r1 r2))\<rparr>,
      [LogWarning (SimulationNotForProduction bank_name)])"

subsection \<open>Reading the store\<close>

text \<open>\<^verbatim>\<open>get_access_token\<close>: \<open>JNull\<close> is the \<^verbatim>\<open>None\<close> it returns.\<close>

definition get_access_token :: "oauth_manager \<Rightarrow> string \<Rightarrow> json" where
  "get_access_token m bank_name =
     (case tokens m bank_name of
        None \<Rightarrow> JNull
      | Some stored \<Rightarrow>
          (case decrypt_token m stored of
             Inl e \<Rightarrow> JNull
           | Inr token_data \<Rightarrow>
               (case py_get token_data ''access_token'' of
                  Inl e \<Rightarrow> JNull
                | Inr access_token \<Rightarrow> access_token)))"


section \<open>The callback listener\<close>

text \<open>
  \<^verbatim>\<open>callback_server.py\<close>. A request is its path and its parsed query (aiohttp's
  \<^verbatim>\<open>request.query\<close>, whose \<^verbatim>\<open>get\<close> returns the first value of a key). The application's
  \<^verbatim>\<open>auth_result\<close> slot is \<open>None\<close> until the handler of \<^verbatim>\<open>/callback\<close> writes it.
\<close>

definition query_get :: "(string \<times> string) list \<Rightarrow> string \<Rightarrow> json" where
  "query_get q k = (case map_of q k of None \<Rightarrow> JNull | Some v \<Rightarrow> JStr v)"

definition handle_callback :: "request \<Rightarrow> pydict option \<Rightarrow> response \<times> pydict option" where
  "handle_callback req auth_result =
     (Response 200 ''You can close this window and return to the app.'',
      Some [(''code'', query_get (query req) ''code''),
            (''state'', query_get (query req) ''state''),
            (''error'', query_get (query req) ''error''),
            (''error_description'', query_get (query req) ''error_description'')])"

definition handle_root :: "request \<Rightarrow> pydict option \<Rightarrow> response \<times> pydict option" where
  "handle_root req auth_result = (Response 200 ''OAuth Callback Server Running'', auth_result)"

definition handle_favicon :: "request \<Rightarrow> pydict option \<Rightarrow> response \<times> pydict option" where
  "handle_favicon req auth_result = (Response 204 [], auth_result)"

text \<open>The three routes of the application; the router answers 404 for any other path.\<close>

definition dispatch :: "request \<Rightarrow> pydict option \<Rightarrow> response \<times> pydict option" where
  "dispatch req auth_result =
     (if path req = ''/'' then handle_root req auth_result
      else if path req = ''/favicon.ico'' then handle_favicon req auth_result
      else if path req = ''/callback'' then handle_callback req auth_result
      else (Response 404 ''404: Not Found'', auth_result))"

fun serve_all :: "request list \<Rightarrow> pydict option \<Rightarrow> pydict option \<times> event list" where
  "serve_all [] auth_result = (auth_result, [])"
| "serve_all (req # reqs) auth_result =
     (case dispatch req auth_result of
        (resp, auth_result1) \<Rightarrow>
          (case serve_all reqs auth_result1 of
             (auth_result2, evs) \<Rightarrow> (auth_result2, Served req resp # evs)))"

definition timeout_result :: pydict where
  "timeout_result = [(''error'', JStr ''timeout''), (''error_description'', JStr ''No callback received'')]"

text \<open>
  The loop \<^verbatim>\<open>for _ in range(timeout)\<close>: \<open>k\<close> iterations are left, \<open>i\<close> counts the sleeps so
  far, and \<open>arr i\<close> are the requests served during sleep \<open>i\<close>. After each sleep the slot
  is read.
\<close>

fun wait_for_callback ::
  "nat \<Rightarrow> nat \<Rightarrow> (nat \<Rightarrow> request list) \<Rightarrow> pydict option \<Rightarrow> pydict \<times> event list" where
  "wait_for_callback 0 i arr auth_result = (timeout_result, [])"
| "wait_for_callback (Suc k) i arr auth_result =
     (case serve_all (arr i) auth_result of
        (Some result, evs) \<Rightarrow> (result, evs)
      | (None, evs) \<Rightarrow>
          (case wait_for_callback k (Suc i) arr None of
             (result, evs1) \<Rightarrow> (result, evs @ evs1)))"

record listener_env =
  load_cert_chain :: "error option"
  site_start :: "error option"
  arrivals :: "nat \<Rightarrow> request list"

text \<open>
  \<^verbatim>\<open>run_https_callback_server\<close>. Loading the certificate and starting the site happen before
  the \<^verbatim>\<open>try\<close>: if one of them raises, the exception leaves the function. Once the site is
  started, the \<^verbatim>\<open>finally\<close> clause cleans the runner up on every way out.
\<close>

definition run_https_callback_server ::
  "json \<Rightarrow> json \<Rightarrow> json \<Rightarrow> json \<Rightarrow> int \<Rightarrow> listener_env \<Rightarrow> (error + pydict) \<times> event list" where
  "run_https_callback_server host port cert_path key_path timeout_seconds env =
     (case load_cert_chain env of
        Some e \<Rightarrow> (Inl e, [])
      | None \<Rightarrow>
          (case site_start env of
             Some e \<Rightarrow> (Inl e, [])
           | None \<Rightarrow>
               (case wait_for_callback (nat timeout_seconds) 0 (arrivals env) None of
                  (result, evs) \<Rightarrow>
                    (Inr result, ListenerStart host port # evs @ [ListenerCleanup]))))"

section \<open>The authorization-code flow and the grant selection\<close>

datatype browser_result = BrowserOpened | BrowserNotOpened | BrowserRaises error

text \<open>
  \<^verbatim>\<open>webbrowser.open\<close> inside its own \<^verbatim>\<open>try\<close>: a browser that does not open, or an
  exception, is a warning in the log and nothing else.
\<close>

definition open_browser :: "json \<Rightarrow> (string \<times> json) list \<Rightarrow> browser_result \<Rightarrow> event list" where
  "open_browser base params b =
     (case b of
        BrowserOpened \<Rightarrow> [BrowserOpen base params]
      | BrowserNotOpened \<Rightarrow> [BrowserOpen base params, LogWarning BrowserNotLaunched]
      | BrowserRaises e \<Rightarrow> [BrowserOpen base params, LogWarning (BrowserLaunchFailed e)])"

record flow_env =
  csrf_state :: string
  redirect_parsed :: "error + (json \<times> json)"
  browser :: browser_result
  listener :: listener_env
  token_http :: http_result
  token_iv :: nat

text \<open>
  The end of \<^verbatim>\<open>authorization_code_flow\<close>, from the callback result on: an \<^verbatim>\<open>error\<close> in the
  result or a missing \<^verbatim>\<open>code\<close> raises, otherwise the code is exchanged. \<open>state\<close> is the value
  generated for this attempt.
\<close>

definition exchange_callback ::
  "oauth_manager \<Rightarrow> pydict \<Rightarrow> string \<Rightarrow> pydict \<Rightarrow> http_result \<Rightarrow> nat \<Rightarrow> json outcome" where
  "exchange_callback m bank_config state result http iv =
     (if truthy (dict_get result ''error'') then
        (Inl (OAuthError (AuthorizationError
                (if truthy (dict_get result ''error_description'')
                 then dict_get result ''error_description'' else dict_get result ''error''))), m, [])
      else if \<not> truthy (dict_get result ''code'') then (Inl (OAuthError NoAuthorizationCode), m, [])
      else exchange_code_for_token m (dict_get result ''code'') bank_config state http iv)"

text \<open>
  \<^verbatim>\<open>authorization_code_flow\<close>. \<open>redirect_parsed env\<close> is what \<^verbatim>\<open>urlparse\<close> gives for the
  redirect URI (host name and port, or the exception). The listener runs with its default
  timeout of 120 seconds.
\<close>

definition authorization_code_flow ::
  "oauth_manager \<Rightarrow> pydict \<Rightarrow> pydict \<Rightarrow> flow_env \<Rightarrow> json outcome" where
  "authorization_code_flow m bank_config app_config env =
     (case generate_authorization_url bank_config (csrf_state env) of
        Inl e \<Rightarrow> (Inl e, m, [])
      | Inr ((base, params), state) \<Rightarrow>
     (case dict_item bank_config ''redirect_uri'' of
        Inl e \<Rightarrow> (Inl e, m, [])
      | Inr redirect \<Rightarrow>
     (case redirect_parsed env of
        Inl e \<Rightarrow> (Inl e, m, [])
      | Inr (hostname, portnum) \<Rightarrow>
          let host = (if truthy hostname then hostname else JStr ''localhost'');
              port = (if truthy portnum then portnum else JInt 8443);
              cert = dict_get app_config ''tls_cert_path'';
              key = dict_get app_config ''tls_key_path''
          in if \<not> truthy cert \<or> \<not> truthy key then (Inl (OAuthError TlsNotConfigured), m, [])
             else
               (case run_https_callback_server host port cert key 120 (listener env) of
                  (Inl e, evs) \<Rightarrow> (Inl e, m, open_browser base params (browser env) @ evs)
                | (Inr result, evs) \<Rightarrow>
                    (case exchange_callback m bank_config state result (token_http env) (token_iv env) of
                       (r, m1, evs1) \<Rightarrow>
                         (r, m1, open_browser base params (browser env) @ evs @ evs1))))))"

record main_env =
  flow :: flow_env
  mock_access :: string
  mock_refresh :: string
  mock_iv :: nat

text \<open>
  \<^verbatim>\<open>simulate_oauth_flow(primary['name'], primary)\<close> as \<^verbatim>\<open>main\<close> calls it: a missing name
  raises \<open>KeyError\<close>, which ends \<^verbatim>\<open>main\<close>.
\<close>

definition simulate_primary ::
  "oauth_manager \<Rightarrow> pydict \<Rightarrow> main_env \<Rightarrow> error option \<times> oauth_manager \<times> event list" where
  "simulate_primary m primary env =
     (case dict_item primary ''name'' of
        Inl e \<Rightarrow> (Some e, m, [])
      | Inr (JStr bank_name) \<Rightarrow>
          (case simulate_oauth_flow m bank_name primary (mock_access env) (mock_refresh env) (mock_iv env) of
             (token, m1, evs) \<Rightarrow> (None, m1, evs))
      | Inr _ \<Rightarrow> (Some TypeError, m, []))"

text \<open>
  The grant selection of \<^verbatim>\<open>main\<close> (the \<^verbatim>\<open>if\<close> on the credentials and TLS paths, with its
  \<^verbatim>\<open>try\<close>). The first component is the exception that ends \<^verbatim>\<open>main\<close>, if any.
\<close>

definition main_grant ::
  "oauth_manager \<Rightarrow> pydict \<Rightarrow> pydict \<Rightarrow> main_env \<Rightarrow> error option \<times> oauth_manager \<times> event list" where
  "main_grant m primary app_cfg env =
     (if truthy (dict_get primary ''client_id'') \<and> truthy (dict_get primary ''client_secret'')
         \<and> truthy (dict_get app_cfg ''tls_cert_path'') \<and> truthy (dict_get app_cfg ''tls_key_path'')
      then
        (case authorization_code_flow m primary app_cfg (flow env) of
           (Inr token, m1, evs) \<Rightarrow> (None, m1, evs)
         | (Inl e, m1, evs) \<Rightarrow>
             (case simulate_primary m1 primary env of
                (r, m2, evs1) \<Rightarrow> (r, m2, evs @ LogWarning (AuthCodeFlowFailed e) # evs1)))
      else simulate_primary m primary env)"

section \<open>Vocabulary of the properties\<close>

text \<open>
  \<open>lacks d k\<close>: the field \<open>k\<close> of the dict \<open>d\<close> is absent, \<^verbatim>\<open>None\<close> or the empty string.
  \<open>store_encrypted m\<close>: every value of the token store is the encryption of the
  serialization of some record.
\<close>

definition lacks :: "pydict \<Rightarrow> string \<Rightarrow> bool" where
  "lacks d k = (map_of d k = None \<or> map_of d k = Some JNull \<or> map_of d k = Some (JStr []))"


text \<open>
  Sample data: the primary bank as \<^verbatim>\<open>load_config\<close> builds it with its defaults and the
  client credentials \<^verbatim>\<open>x\<close> and \<^verbatim>\<open>y\<close>, a manager over the small cipher, and the same
  manager holding one record for that bank.
\<close>

definition primary_bank :: pydict where
  "primary_bank =
     [(''name'', JStr ''commerzbank''), (''client_id'', JStr ''x''),
      (''client_secret'', JStr ''y''), (''redirect_uri'', JStr ''https://localhost:8443/callback''),
      (''authorization_url'', JStr ''https://bank/auth''), (''token_url'', JStr ''https://bank/token''),
      (''scope'', JStr []), (''username'', JNull), (''password'', JNull)]"

definition demo_manager :: oauth_manager where
  "demo_manager = init_manager [] demo_fernet"

definition holding :: "json \<Rightarrow> oauth_manager" where
  "holding token =
     demo_manager\<lparr>tokens := [''commerzbank'' \<mapsto> encrypt_token demo_manager 0 token]\<rparr>"

text \<open>
  \<open>is_callback\<close>: a request for the path \<^verbatim>\<open>/callback\<close>. \<open>callback_fields req\<close>: the dict the
  handler writes for \<open>req\<close>. \<open>served_requests\<close>: the requests a trace shows as served.
\<close>

definition is_callback :: "request \<Rightarrow> bool" where
  "is_callback req = (path req = ''/callback'')"

fun served_requests :: "event list \<Rightarrow> request list" where
  "served_requests [] = []"
| "served_requests (Served req resp # evs) = req # served_requests evs"
| "served_requests (ev # evs) = served_requests evs"

definition callback_fields :: "request \<Rightarrow> pydict" where
  "callback_fields req =
     [(''code'', query_get (query req) ''code''),
      (''state'', query_get (query req) ''state''),
      (''error'', query_get (query req) ''error''),
      (''error_description'', query_get (query req) ''error_description'')]"

text \<open>
  Sample runs: an application configuration with and without TLS paths; a listener that serves
  the root page in the first second, the redirect \<^verbatim>\<open>/callback?code=ABC&state=XYZ\<close> in the
  second, and would get another redirect in the third; an environment in which the user
  signs in that way and the token endpoint answers 200, for any outcome of the browser
  launch; and the same environment with the port already taken.
\<close>

definition tls_app :: pydict where
  "tls_app = [(''tls_cert_path'', JStr ''cert.pem''), (''tls_key_path'', JStr ''key.pem'')]"

definition no_tls_app :: pydict where
  "no_tls_app = [(''tls_cert_path'', JStr []), (''tls_key_path'', JStr [])]"

definition root_request :: request where
  "root_request = \<lparr>path = ''/'', query = []\<rparr>"

definition redirect_request :: "string \<Rightarrow> string \<Rightarrow> request" where
  "redirect_request code state = \<lparr>path = ''/callback'', query = [(''code'', code), (''state'', state)]\<rparr>"

definition signing_in :: listener_env where
  "signing_in =
     \<lparr>load_cert_chain = None, site_start = None,
      arrivals = (\<lambda>t. if t = 0 then [root_request]
                      else if t = 1 then [redirect_request ''ABC'' ''XYZ'']
                      else if t = 2 then [redirect_request ''LATE'' ''XYZ'']
                      else [])\<rparr>"

definition signed_in :: "browser_result \<Rightarrow> main_env" where
  "signed_in b =
     \<lparr>flow = \<lparr>csrf_state = ''generated'',
              redirect_parsed = Inr (JStr ''localhost'', JInt 8443),
              browser = b,
              listener = signing_in,
              token_http = HttpResponse 200 [] (Inr (JObj [(''access_token'', JStr ''real'')])),
              token_iv = 1\<rparr>,
      mock_access = ''aaaa'', mock_refresh = ''rrrr'', mock_iv = 2\<rparr>"

definition bind_fails :: main_env where
  "bind_fails =
     (signed_in BrowserOpened)
       \<lparr>flow := (flow (signed_in BrowserOpened))
                  \<lparr>listener := signing_in\<lparr>site_start := Some (OSError ''address in use'')\<rparr>\<rparr>\<rparr>"

section \<open>Vocabulary of the proofs\<close>

text \<open>
  \<open>number_end r\<close>: the text \<open>r\<close> after a number does not continue it. \<open>item_text\<close> is one
  \<^verbatim>\<open>"key": value\<close> item of an object, \<open>key_body\<close> a key after its opening quote.
  \<open>scans v\<close>: the scanner reads \<open>v\<close> back from its text, whatever follows and with any
  fuel that covers the text.
\<close>

definition number_end :: "string \<Rightarrow> bool" where
  "number_end r = (case r of [] \<Rightarrow> True | c # _ \<Rightarrow> \<not> is_digit c \<and> c \<noteq> CHR ''.'' \<and> c \<noteq> CHR ''e'' \<and> c \<noteq> CHR ''E'')"

definition item_text :: "string \<times> json \<Rightarrow> string" where
  "item_text kv = encode_basestring_ascii (fst kv) @ '': '' @ dumps (snd kv)"

definition key_body :: "string \<Rightarrow> string" where
  "key_body k = concat (map escape_char k) @ [CHR 0x22]"

definition scans :: "json \<Rightarrow> bool" where
  "scans v = (\<forall>n r. length (dumps v) \<le> n \<longrightarrow> number_end r \<longrightarrow> scan_once n (dumps v @ r) = Some (v, r))"

text \<open>
  \<open>flow_tail\<close>: result and manager of \<^verbatim>\<open>authorization_code_flow\<close> once the authorization URL
  is built, without the trace.
\<close>

definition flow_tail ::
  "oauth_manager \<Rightarrow> pydict \<Rightarrow> pydict \<Rightarrow> flow_env \<Rightarrow> string \<Rightarrow> (error + json) \<times> oauth_manager" where
  "flow_tail m bank_config app_config env state =
     (case dict_item bank_config ''redirect_uri'' of
        Inl e \<Rightarrow> (Inl e, m)
      | Inr redirect \<Rightarrow>
     (case redirect_parsed env of
        Inl e \<Rightarrow> (Inl e, m)
      | Inr (hostname, portnum) \<Rightarrow>
          if \<not> truthy (dict_get app_config ''tls_cert_path'') \<or> \<not> truthy (dict_get app_config ''tls_key_path'')
          then (Inl (OAuthError TlsNotConfigured), m)
          else
            (case fst (run_https_callback_server
                    (if truthy hostname then hostname else JStr ''localhost'')
                    (if truthy portnum then portnum else JInt 8443)
                    (dict_get app_config ''tls_cert_path'') (dict_get app_config ''tls_key_path'')
                    120 (listener env)) of
               Inl e \<Rightarrow> (Inl e, m)
             | Inr result \<Rightarrow>
                 (fst (exchange_callback m bank_config state result (token_http env) (token_iv env)),
                  fst (snd (exchange_callback m bank_config state result (token_http env) (token_iv env)))))))"

section \<open>Reading back what \<^verbatim>\<open>json.dumps\<close> wrote\<close>

subsection \<open>Strings\<close>

lemma hex_val_hex_digit: "n < 16 \<Longrightarrow> hex_val (hex_digit n) = Some n"
proof -
  assume "n < 16"
  then have "n \<in> {0,1,2,3,4,5,6,7,8,9,10,11,12,13,14,15}" by simp arith
  then show ?thesis
    by (auto simp: hex_val_def hex_digit_def)
qed

lemma decode_uXXXX_escape:
  fixes c :: char
  defines "n \<equiv> (of_char c :: nat)"
  shows "decode_uXXXX (hex_digit (n div 4096)) (hex_digit (n div 256)) (hex_digit (n div 16)) (hex_digit n) = Some c"
proof -
  have lt: "n < 256" by (simp add: n_def)
  have h: "\<And>m. hex_val (hex_digit m) = Some (m mod 16)"
  proof -
    fix m :: nat
    have "hex_digit m = hex_digit (m mod 16)" by (simp add: hex_digit_def)
    then show "hex_val (hex_digit m) = Some (m mod 16)"
      by (simp add: hex_val_hex_digit)
  qed
  have a: "n div 4096 = 0" "n div 256 = 0" using lt by auto
  have b: "n div 16 mod 16 = n div 16" using lt by auto
  have "char_of n = c" by (simp add: n_def)
  then show ?thesis
    using lt by (simp add: decode_uXXXX_def h a b)
qed

lemma scanstring_escape_char:
  "scanstring (escape_char c @ t) =
     (case scanstring t of None \<Rightarrow> None | Some (u, r) \<Rightarrow> Some (c # u, r))"
proof -
  consider (bs) "c = CHR 0x5C" | (dq) "c = CHR 0x22" | (b) "c = CHR 0x08" | (f) "c = CHR 0x0C"
    | (n) "c = CHR 0x0A" | (r) "c = CHR 0x0D" | (t) "c = CHR 0x09"
    | (plain) "c \<noteq> CHR 0x5C" "c \<noteq> CHR 0x22" "32 \<le> (of_char c :: nat)" "(of_char c :: nat) \<le> 126"
    | (uni) "c \<noteq> CHR 0x5C" "c \<noteq> CHR 0x22" "c \<noteq> CHR 0x08" "c \<noteq> CHR 0x0C" "c \<noteq> CHR 0x0A"
        "c \<noteq> CHR 0x0D" "c \<noteq> CHR 0x09" "\<not> (32 \<le> (of_char c :: nat) \<and> (of_char c :: nat) \<le> 126)"
    by blast
  then show ?thesis
  proof cases
    case plain
    then have "escape_char c = [c]"
      by (auto simp: escape_char_def)
    with plain show ?thesis by (simp split: option.splits)
  next
    case uni
    then have "escape_char c = [CHR 0x5C, CHR ''u'', hex_digit (of_char c div 4096), hex_digit (of_char c div 256),
             hex_digit (of_char c div 16), hex_digit (of_char c)]"
      by (simp add: escape_char_def Let_def)
    then show ?thesis using decode_uXXXX_escape [of c] by (simp split: option.splits)
  qed (simp_all add: escape_char_def backslash_def split: option.splits)
qed

lemma scanstring_escaped:
  "scanstring (concat (map escape_char s) @ CHR 0x22 # rest) = Some (s, rest)"
  by (induction s) (simp_all add: scanstring_escape_char)

subsection \<open>Integers\<close>

lemma digit_char_props:
  assumes "d < 10"
  shows "is_digit (digit_char d)" and "(of_char (digit_char d) :: nat) - 48 = d"
    and "0 < d \<Longrightarrow> digit_char d \<noteq> CHR ''0''"
proof -
  from assms have "d \<in> {0,1,2,3,4,5,6,7,8,9}" by simp arith
  then show "is_digit (digit_char d)" and "(of_char (digit_char d) :: nat) - 48 = d"
    and "0 < d \<Longrightarrow> digit_char d \<noteq> CHR ''0''"
    by (auto simp: digit_char_def is_digit_def)
qed

lemma digits_of_all_digits: "\<forall>c \<in> set (digits_of n). is_digit c"
proof (induction n rule: digits_of.induct)
  case (1 n)
  show ?case
  proof (cases "n < 10")
    case True
    then show ?thesis by (subst digits_of.simps) (simp add: digit_char_props)
  next
    case False
    have "is_digit (digit_char (n mod 10))" by (rule digit_char_props) simp
    with False 1 show ?thesis by (subst digits_of.simps) simp
  qed
qed

lemma digits_value_snoc: "digits_value (ds @ [c]) = 10 * digits_value ds + (of_char c - 48)"
  by (simp add: digits_value_def)

lemma digits_value_digits_of: "digits_value (digits_of n) = n"
proof (induction n rule: digits_of.induct)
  case (1 n)
  show ?case
  proof (cases "n < 10")
    case True
    then show ?thesis by (subst digits_of.simps) (simp add: digits_value_def digit_char_props)
  next
    case False
    have "(of_char (digit_char (n mod 10)) :: nat) - 48 = n mod 10"
      by (rule digit_char_props) simp
    with False 1 show ?thesis
      by (subst digits_of.simps) (simp add: digits_value_snoc)
  qed
qed

lemma digits_of_zero: "digits_of 0 = ''0''"
  by (subst digits_of.simps) (simp add: digit_char_def)

lemma digits_of_head: "\<exists>c cs. digits_of n = c # cs \<and> is_digit c \<and> (0 < n \<longrightarrow> c \<noteq> CHR ''0'')"
proof (induction n rule: digits_of.induct)
  case (1 n)
  show ?case
  proof (cases "n < 10")
    case True
    then show ?thesis by (subst digits_of.simps) (simp add: digit_char_props)
  next
    case False
    then have "0 < n div 10" by simp
    with False 1 obtain c cs where "digits_of (n div 10) = c # cs" "is_digit c" "c \<noteq> CHR ''0''"
      by blast
    with False show ?thesis by (subst digits_of.simps) simp
  qed
qed

lemma takeWhile_digits: "\<forall>c \<in> set ds. is_digit c \<Longrightarrow> number_end r \<Longrightarrow>
    takeWhile is_digit (ds @ r) = ds \<and> dropWhile is_digit (ds @ r) = r"
  by (induction ds) (auto simp: number_end_def split: list.splits)

lemma match_integer_digits_of:
  assumes "number_end r"
  shows "match_integer (digits_of n @ r) = Some (n, r)"
proof (cases "n = 0")
  case True
  then show ?thesis by (simp add: match_integer_def digits_of_zero)
next
  case False
  obtain c cs where h: "digits_of n = c # cs" "is_digit c" "c \<noteq> CHR ''0''"
    using digits_of_head [of n] False by auto
  have tw: "takeWhile is_digit (digits_of n @ r) = digits_of n" "dropWhile is_digit (digits_of n @ r) = r"
    using takeWhile_digits [OF digits_of_all_digits assms] by auto
  have "match_integer (digits_of n @ r) = Some (digits_value (takeWhile is_digit (digits_of n @ r)), dropWhile is_digit (digits_of n @ r))"
    using h by (simp add: match_integer_def)
  then show ?thesis by (simp add: tw digits_value_digits_of)
qed

lemma number_end_not_float: "number_end r \<Longrightarrow> \<not> starts_float r"
  by (auto simp: number_end_def starts_float_def split: list.splits)

lemma match_number_int_repr:
  assumes "number_end r"
  shows "match_number (int_repr i @ r) = Some (i, r)"
proof (cases "i < 0")
  case True
  then show ?thesis
    using assms by (simp add: match_number_def int_repr_def match_integer_digits_of number_end_not_float)
next
  case False
  obtain c cs where h: "digits_of (nat i) = c # cs" "is_digit c"
    using digits_of_head [of "nat i"] by auto
  then have ne: "c \<noteq> CHR ''-''" by (auto simp: is_digit_def)
  have "match_integer (c # cs @ r) = Some (nat i, r)"
    using match_integer_digits_of [OF assms, of "nat i"] h by simp
  then show ?thesis
    using False h ne assms by (simp add: match_number_def int_repr_def number_end_not_float)
qed

lemma int_repr_head: "\<exists>c cs. int_repr i = c # cs \<and> (is_digit c \<or> c = CHR ''-'')"
  using digits_of_head [of "nat i"] by (auto simp: int_repr_def)

lemma scan_once_int:
  assumes "number_end r"
  shows "scan_once (Suc n) (int_repr i @ r) = Some (JInt i, r)"
proof -
  obtain c cs where h: "int_repr i = c # cs" "is_digit c \<or> c = CHR ''-''"
    using int_repr_head by blast
  then have ne: "c \<noteq> CHR 0x22" "c \<noteq> CHR ''{''" "c \<noteq> CHR ''[''" "c \<noteq> CHR ''n''" "c \<noteq> CHR ''t''" "c \<noteq> CHR ''f''"
    by (auto simp: is_digit_def)
  have m: "match_number (c # cs @ r) = Some (i, r)"
    using match_number_int_repr [OF assms, of i] h by simp
  show ?thesis
    using ne m by (simp add: h)
qed

subsection \<open>Arrays, objects and whole values\<close>

lemma dumps_obj_item: "dumps (JObj kvs) = ''{'' @ join_items (map item_text kvs) @ ''}''"
proof -
  have "(\<lambda>(k, v). encode_basestring_ascii k @ '': '' @ dumps v) = item_text"
    by (auto simp: item_text_def fun_eq_iff)
  then show ?thesis by simp
qed

lemma dumps_head: "\<exists>c cs. dumps v = c # cs \<and> \<not> is_ws c \<and> c \<noteq> CHR '']''"
proof (cases v)
  case (JInt i)
  obtain c cs where "int_repr i = c # cs" "is_digit c \<or> c = CHR ''-''"
    using int_repr_head by blast
  with JInt show ?thesis by (auto simp: is_ws_def is_digit_def)
qed (auto simp: is_ws_def encode_basestring_ascii_def)

lemma skip_ws_dumps: "skip_ws (dumps v @ r) = dumps v @ r"
  using dumps_head [of v] by (auto simp: skip_ws_def)

lemma skip_ws_space_dumps: "skip_ws (CHR '' '' # dumps v @ r) = dumps v @ r"
  using dumps_head [of v] by (auto simp: skip_ws_def is_ws_def)

lemma number_end_delims [simp]:
  "number_end []" "number_end (CHR '','' # r)" "number_end (CHR '']'' # r)" "number_end (CHR ''}'' # r)"
  by (simp_all add: number_end_def is_digit_def)

lemma skip_ws_delims [simp]:
  "skip_ws (CHR '','' # r) = CHR '','' # r" "skip_ws (CHR '']'' # r) = CHR '']'' # r"
  "skip_ws (CHR ''}'' # r) = CHR ''}'' # r" "skip_ws (CHR '':'' # r) = CHR '':'' # r"
  "skip_ws (CHR 0x22 # r) = CHR 0x22 # r"
  by (simp_all add: skip_ws_def is_ws_def)

lemma skip_ws_space [simp]: "skip_ws (CHR '' '' # r) = skip_ws r"
  by (simp add: skip_ws_def is_ws_def)

lemma scansD: "scans v \<Longrightarrow> length (dumps v) \<le> n \<Longrightarrow> number_end r \<Longrightarrow> scan_once n (dumps v @ r) = Some (v, r)"
  by (simp add: scans_def)

lemma parse_array_items:
  assumes "\<forall>x \<in> set xs. scans x" and "xs \<noteq> []"
    and "length (join_items (map dumps xs)) < n"
  shows "parse_array n (join_items (map dumps xs) @ CHR '']'' # r) acc = Some (JArr (acc @ xs), r)"
  using assms
proof (induction xs arbitrary: n acc)
  case Nil
  then show ?case by simp
next
  case (Cons x xs)
  from Cons.prems obtain m where n: "n = Suc m" by (cases n) auto
  show ?case
  proof (cases xs)
    case Nil
    have "scan_once m (dumps x @ CHR '']'' # r) = Some (x, CHR '']'' # r)"
      using Cons.prems Nil n by (intro scansD) auto
    then show ?thesis using Nil n by simp
  next
    case (Cons y ys)
    have len: "length (dumps x) \<le> m" "length (join_items (map dumps xs)) < m"
      using Cons.prems(3) Cons n by auto
    have "scan_once m (dumps x @ CHR '','' # CHR '' '' # join_items (map dumps xs) @ CHR '']'' # r)
        = Some (x, CHR '','' # CHR '' '' # join_items (map dumps xs) @ CHR '']'' # r)"
      using Cons.prems len by (intro scansD) auto
    moreover have "skip_ws (join_items (map dumps xs) @ CHR '']'' # r) = join_items (map dumps xs) @ CHR '']'' # r"
      using Cons skip_ws_dumps [of y] by (cases ys) auto
    moreover have "parse_array m (join_items (map dumps xs) @ CHR '']'' # r) (acc @ [x]) = Some (JArr ((acc @ [x]) @ xs), r)"
      using Cons.prems Cons len by (intro Cons.IH) auto
    ultimately show ?thesis using Cons n by simp
  qed
qed

lemma dict_set_fresh: "k \<notin> fst ` set d \<Longrightarrow> dict_set d k v = d @ [(k, v)]"
  by (induction d) auto

lemma foldl_dict_set_distinct:
  "distinct (map fst (d @ ps)) \<Longrightarrow> foldl (\<lambda>d (k, v). dict_set d k v) d ps = d @ ps"
proof (induction ps arbitrary: d)
  case Nil
  then show ?case by simp
next
  case (Cons p ps)
  obtain k v where p: "p = (k, v)" by (cases p)
  from Cons.prems have fresh: "k \<notin> fst ` set d" by (auto simp: p)
  have "distinct (map fst ((d @ [(k, v)]) @ ps))" using Cons.prems by (simp add: p)
  then have "foldl (\<lambda>d (k, v). dict_set d k v) (d @ [(k, v)]) ps = (d @ [(k, v)]) @ ps"
    by (rule Cons.IH)
  then show ?case by (simp add: p dict_set_fresh [OF fresh])
qed

lemma dict_of_pairs_distinct: "distinct (map fst ps) \<Longrightarrow> dict_of_pairs ps = ps"
  using foldl_dict_set_distinct [of "[]" ps] by (simp add: dict_of_pairs_def)

lemma item_text_body: "item_text (k, v) = CHR 0x22 # key_body k @ '': '' @ dumps v"
  by (simp add: item_text_def key_body_def encode_basestring_ascii_def)

lemma scanstring_key_body: "scanstring (key_body k @ r) = Some (k, r)"
  by (simp add: key_body_def scanstring_escaped)

lemma parse_object_items:
  assumes "\<forall>kv \<in> set kvs. scans (snd kv)"
    and "join_items (map item_text kvs) = CHR 0x22 # body"
    and "length body < n"
  shows "parse_object n (body @ CHR ''}'' # r) pairs = Some (JObj (dict_of_pairs (pairs @ kvs)), r)"
  using assms
proof (induction kvs arbitrary: n pairs body)
  case Nil
  then show ?case by simp
next
  case (Cons kv rest)
  obtain k v where kv: "kv = (k, v)" by (cases kv)
  from Cons.prems obtain m where n: "n = Suc m" by (cases n) auto
  have sv: "scans v" using Cons.prems(1) by (simp add: kv)
  show ?case
  proof (cases rest)
    case Nil
    have body: "body = key_body k @ '': '' @ dumps v"
      using Cons.prems(2) Nil by (simp add: kv item_text_body)
    have "length (dumps v) \<le> m" using Cons.prems(3) body n by simp
    then have "scan_once m (dumps v @ CHR ''}'' # r) = Some (v, CHR ''}'' # r)"
      using sv by (intro scansD) auto
    then show ?thesis
      using Nil n by (simp add: body kv scanstring_key_body skip_ws_dumps)
  next
    case (Cons kv2 rest2)
    obtain k2 v2 where kv2: "kv2 = (k2, v2)" by (cases kv2)
    obtain body2 where b2: "join_items (map item_text rest) = CHR 0x22 # body2"
      using Cons by (cases rest2) (auto simp: kv2 item_text_body)
    have body: "body = key_body k @ '': '' @ dumps v @ '', '' @ CHR 0x22 # body2"
      using Cons.prems(2) Cons b2 by (simp add: kv item_text_body)
    have len: "length (dumps v) \<le> m" "length body2 < m"
      using Cons.prems(3) body n by auto
    have "scan_once m (dumps v @ CHR '','' # CHR '' '' # CHR 0x22 # body2 @ CHR ''}'' # r)
        = Some (v, CHR '','' # CHR '' '' # CHR 0x22 # body2 @ CHR ''}'' # r)"
      using sv len by (intro scansD) auto
    moreover have "parse_object m (body2 @ CHR ''}'' # r) (pairs @ [(k, v)])
        = Some (JObj (dict_of_pairs ((pairs @ [(k, v)]) @ rest)), r)"
      using Cons.prems(1) b2 len by (intro Cons.IH) auto
    ultimately show ?thesis
      using n by (simp add: body kv scanstring_key_body skip_ws_dumps)
  qed
qed

lemma scans_all: "wf_json v \<Longrightarrow> scans v"
proof (induction v)
  case JNull
  show ?case unfolding scans_def
  proof (intro allI impI)
    fix n r assume "length (dumps JNull) \<le> n"
    then obtain m where "n = Suc m" by (cases n) auto
    then show "scan_once n (dumps JNull @ r) = Some (JNull, r)" by simp
  qed
next
  case (JBool b)
  show ?case unfolding scans_def
  proof (intro allI impI)
    fix n r assume "length (dumps (JBool b)) \<le> n"
    then obtain m where "n = Suc m" by (cases n) (auto split: if_splits)
    then show "scan_once n (dumps (JBool b) @ r) = Some (JBool b, r)" by simp
  qed
next
  case (JInt i)
  show ?case unfolding scans_def
  proof (intro allI impI)
    fix n r assume "length (dumps (JInt i)) \<le> n" and ne: "number_end r"
    moreover obtain c cs where "int_repr i = c # cs" using int_repr_head by blast
    ultimately obtain m where "n = Suc m" by (cases n) auto
    then show "scan_once n (dumps (JInt i) @ r) = Some (JInt i, r)"
      using scan_once_int [OF ne] by simp
  qed
next
  case (JStr s)
  show ?case unfolding scans_def
  proof (intro allI impI)
    fix n r assume "length (dumps (JStr s)) \<le> n"
    then obtain m where "n = Suc m" by (cases n) (auto simp: encode_basestring_ascii_def)
    then show "scan_once n (dumps (JStr s) @ r) = Some (JStr s, r)"
      by (simp add: encode_basestring_ascii_def scanstring_escaped)
  qed
next
  case (JArr xs)
  then have all: "\<forall>x \<in> set xs. scans x" by simp
  show ?case unfolding scans_def
  proof (intro allI impI)
    fix n r assume len: "length (dumps (JArr xs)) \<le> n"
    then obtain m where n: "n = Suc m" by (cases n) auto
    show "scan_once n (dumps (JArr xs) @ r) = Some (JArr xs, r)"
    proof (cases xs)
      case Nil
      then show ?thesis using n by simp
    next
      case (Cons y ys)
      obtain c cs where h: "dumps y = c # cs" "\<not> is_ws c" and ne: "c \<noteq> CHR '']''"
        using dumps_head by blast
      obtain t where t: "join_items (map dumps xs) = c # t"
        using Cons h by (cases ys) auto
      have "length (join_items (map dumps xs)) < m" using len n by simp
      then have "parse_array m (join_items (map dumps xs) @ CHR '']'' # r) [] = Some (JArr ([] @ xs), r)"
        using all Cons by (intro parse_array_items) auto
      then show ?thesis using n t h ne by (simp add: skip_ws_def)
    qed
  qed
next
  case (JObj kvs)
  then have all: "\<forall>kv \<in> set kvs. scans (snd kv)" and dist: "distinct (map fst kvs)"
    by (auto simp: snds.simps)
  show ?case unfolding scans_def
  proof (intro allI impI)
    fix n r assume len: "length (dumps (JObj kvs)) \<le> n"
    then obtain m where n: "n = Suc m" by (cases n) auto
    show "scan_once n (dumps (JObj kvs) @ r) = Some (JObj kvs, r)"
    proof (cases kvs)
      case Nil
      then show ?thesis using n by simp
    next
      case (Cons kv rest)
      obtain body where b: "join_items (map item_text kvs) = CHR 0x22 # body"
        using Cons by (cases kv; cases rest) (auto simp: item_text_body)
      have "length body < m" using len n b by (simp add: dumps_obj_item del: dumps.simps)
      then have "parse_object m (body @ CHR ''}'' # r) [] = Some (JObj (dict_of_pairs ([] @ kvs)), r)"
        using all b by (intro parse_object_items) auto
      then show ?thesis using n b dist by (simp add: dumps_obj_item dict_of_pairs_distinct del: dumps.simps)
    qed
  qed
qed

lemma loads_dumps: "wf_json v \<Longrightarrow> loads (dumps v) = Some v"
proof -
  assume "wf_json v"
  then have "scans v" by (rule scans_all)
  then have "scan_once (length (dumps v)) (dumps v @ []) = Some (v, [])"
    by (intro scansD) auto
  then show ?thesis
    using skip_ws_dumps [of v "[]"] by (simp add: loads_def skip_ws_def)
qed

section \<open>Bytes and the cipher\<close>

lemma lead_byte:
  fixes n :: nat
  assumes "n < 256"
  shows "(of_char (char_of (192 + n div 64)) :: nat) = 192 + n div 64"
proof -
  have "n div 64 < 4" using assms by (intro less_mult_imp_div_less) simp
  then have "192 + n div 64 < 256" by linarith
  then have "(192 + n div 64) mod 256 = 192 + n div 64" by (rule mod_less)
  then show ?thesis by (simp only: of_char_of)
qed

lemma cont_byte:
  fixes n :: nat
  shows "(of_char (char_of (128 + n mod 64)) :: nat) = 128 + n mod 64"
proof -
  have "n mod 64 < 64" by (rule mod_less_divisor) simp
  then have "128 + n mod 64 < 256" by linarith
  then have "(128 + n mod 64) mod 256 = 128 + n mod 64" by (rule mod_less)
  then show ?thesis by (simp only: of_char_of)
qed

lemma lead_range:
  fixes n :: nat
  assumes "128 \<le> n" "n < 256"
  shows "n div 64 = 2 \<or> n div 64 = 3"
proof -
  have "n div 64 < 4" using assms by (intro less_mult_imp_div_less) simp
  moreover have "2 \<le> n div 64"
  proof -
    have "128 div 64 \<le> n div (64::nat)" using assms(1) by (rule div_le_mono)
    then show ?thesis by simp
  qed
  ultimately show ?thesis by linarith
qed

lemma utf8_decode_encode_char:
  "utf8_decode (utf8_encode_char c @ bs) =
     (case utf8_decode bs of None \<Rightarrow> None | Some s \<Rightarrow> Some (c # s))"
proof (cases "(of_char c :: nat) < 128")
  case True
  then show ?thesis by (simp add: utf8_encode_char_def)
next
  case False
  define n where "n = (of_char c :: nat)"
  have lt: "n < 256" by (simp add: n_def)
  have ge: "128 \<le> n" using False by (simp add: n_def)
  have hi: "n div 64 = 2 \<or> n div 64 = 3" using ge lt by (rule lead_range)
  have rejoin: "char_of (n div 64 * 64 + n mod 64) = c"
    by (simp add: n_def)
  have enc: "utf8_encode_char c = [char_of (192 + n div 64), char_of (128 + n mod 64)]"
    using False by (simp add: utf8_encode_char_def n_def Let_def)
  have l2: "(of_char (char_of (192 + n div 64)) :: nat) - 192 = n div 64"
    using lead_byte [OF lt] by linarith
  have c2: "(of_char (char_of (128 + n mod 64)) :: nat) - 128 = n mod 64"
    using cont_byte [of n] by linarith
  have c3: "128 \<le> (of_char (char_of (128 + n mod 64)) :: nat)"
    "(of_char (char_of (128 + n mod 64)) :: nat) < 192"
  proof -
    have "n mod 64 < 64" by (rule mod_less_divisor) simp
    then show "128 \<le> (of_char (char_of (128 + n mod 64)) :: nat)"
      "(of_char (char_of (128 + n mod 64)) :: nat) < 192"
      using cont_byte [of n] by linarith+
  qed
  have l3: "\<not> (of_char (char_of (192 + n div 64)) :: nat) < 128"
    "(of_char (char_of (192 + n div 64)) :: nat) = 194 \<or> (of_char (char_of (192 + n div 64)) :: nat) = 195"
    using hi lead_byte [OF lt] by linarith+
  show ?thesis
    unfolding enc
    by (simp only: utf8_decode.simps append_Cons append_Nil l2 c2 c3 l3 rejoin list.case if_True if_False simp_thms)
qed

lemma utf8_decode_encode: "utf8_decode (utf8_encode s) = Some s"
  by (induction s) (simp_all add: utf8_encode_def utf8_decode_encode_char)

lemma fernet_law_demo: "fernet_law demo_fernet"
  by (simp add: fernet_law_def demo_fernet_def)

lemma decrypt_encrypt_token:
  "fernet_law (cipher_suite m) \<Longrightarrow> wf_json token \<Longrightarrow> decrypt_token m (encrypt_token m iv token) = Inr token"
  by (simp add: decrypt_token_def encrypt_token_def fernet_law_def utf8_decode_encode loads_dumps)

lemma demo_manager_law: "fernet_law (cipher_suite demo_manager)"
  using fernet_law_demo by (simp add: demo_manager_def init_manager_def)

lemma encrypt_token_tokens_update [simp]:
  "encrypt_token (m\<lparr>tokens := t\<rparr>) iv token = encrypt_token m iv token"
  by (simp add: encrypt_token_def)

lemma decrypt_token_tokens_update [simp]:
  "decrypt_token (m\<lparr>tokens := t\<rparr>) stored = decrypt_token m stored"
  by (simp add: decrypt_token_def)

lemma holding_decrypts:
  "wf_json token \<Longrightarrow>
     tokens (holding token) ''commerzbank'' = Some (encrypt_token demo_manager 0 token)
     \<and> decrypt_token (holding token) (encrypt_token demo_manager 0 token) = Inr token"
  using decrypt_encrypt_token [OF demo_manager_law, of token 0]
  by (simp add: holding_def)

section \<open>The token cipher round trip\<close>



section \<open>Grants that must fail\<close>

lemma lacks_not_truthy: "lacks d k \<Longrightarrow> \<not> truthy (dict_get d k)"
  by (auto simp: lacks_def dict_get_def)

text \<open>
  C7. \<^verbatim>\<open>password_grant_for_token\<close> raises \<open>OAuthError\<close> whenever the username or the
  password is absent or empty in the bank configuration, and then it makes no call to the
  token endpoint: the trace of events is empty and the manager is unchanged, whatever the
  endpoint would have answered.
\<close>

theorem password_grant_needs_credentials:
  assumes "lacks bank_config ''username'' \<or> lacks bank_config ''password''"
  shows "password_grant_for_token m bank_config http iv = (Inl (OAuthError CredentialsNotProvided), m, [])"
  using assms by (auto simp: password_grant_for_token_def dest: lacks_not_truthy)

theorem password_grant_needs_credentials_witness:
  "(lacks [(''name'', JStr ''bank''), (''client_id'', JStr ''x''), (''client_secret'', JStr ''y''),
           (''token_url'', JStr ''https://bank/token''), (''username'', JStr ''u'')] ''username''
    \<or> lacks [(''name'', JStr ''bank''), (''client_id'', JStr ''x''), (''client_secret'', JStr ''y''),
           (''token_url'', JStr ''https://bank/token''), (''username'', JStr ''u'')] ''password'')
   \<and> password_grant_for_token (init_manager [] demo_fernet)
         [(''name'', JStr ''bank''), (''client_id'', JStr ''x''), (''client_secret'', JStr ''y''),
          (''token_url'', JStr ''https://bank/token''), (''username'', JStr ''u'')]
         (HttpResponse 200 [] (Inr (JObj [(''access_token'', JStr ''t'')]))) 0
       = (Inl (OAuthError CredentialsNotProvided), init_manager [] demo_fernet, [])"
proof -
  have h: "lacks [(''name'', JStr ''bank''), (''client_id'', JStr ''x''), (''client_secret'', JStr ''y''),
           (''token_url'', JStr ''https://bank/token''), (''username'', JStr ''u'')] ''username''
    \<or> lacks [(''name'', JStr ''bank''), (''client_id'', JStr ''x''), (''client_secret'', JStr ''y''),
           (''token_url'', JStr ''https://bank/token''), (''username'', JStr ''u'')] ''password''"
    by (simp add: lacks_def)
  show ?thesis
    using h password_grant_needs_credentials [OF h] by simp
qed

text \<open>
  C6. \<^verbatim>\<open>refresh_token\<close> raises \<open>OAuthError\<close> when no record is stored for the identity,
  and when the stored record has no refresh token (absent, \<^verbatim>\<open>None\<close> or empty). In both
  cases nothing is posted and the store is unchanged.
\<close>

theorem refresh_needs_refresh_token:
  "(tokens m bank_name = None \<longrightarrow>
      refresh_token m bank_name bank_config http iv
        = (Inl (OAuthError (NoStoredToken bank_name)), m, []))
   \<and> (tokens m bank_name = Some stored \<and> decrypt_token m stored = Inr (JObj record)
        \<and> lacks record ''refresh_token'' \<longrightarrow>
      refresh_token m bank_name bank_config http iv
        = (Inl (OAuthError (TokenRefreshFailed (OAuthError (NoRefreshToken bank_name)))), m, []))"
  by (auto simp: refresh_token_def refresh_request_def py_get_def dest: lacks_not_truthy)

theorem refresh_needs_refresh_token_witness:
  "tokens demo_manager ''commerzbank'' = None
   \<and> refresh_token demo_manager ''commerzbank'' primary_bank
        (HttpResponse 200 [] (Inr (JObj [(''access_token'', JStr ''new'')]))) 1
      = (Inl (OAuthError (NoStoredToken ''commerzbank'')), demo_manager, [])
   \<and> tokens (holding (JObj [(''access_token'', JStr ''t'')])) ''commerzbank''
      = Some (encrypt_token demo_manager 0 (JObj [(''access_token'', JStr ''t'')]))
   \<and> decrypt_token (holding (JObj [(''access_token'', JStr ''t'')]))
        (encrypt_token demo_manager 0 (JObj [(''access_token'', JStr ''t'')]))
      = Inr (JObj [(''access_token'', JStr ''t'')])
   \<and> lacks [(''access_token'', JStr ''t'')] ''refresh_token''
   \<and> refresh_token (holding (JObj [(''access_token'', JStr ''t'')])) ''commerzbank'' primary_bank
        (HttpResponse 200 [] (Inr (JObj [(''access_token'', JStr ''new'')]))) 1
      = (Inl (OAuthError (TokenRefreshFailed (OAuthError (NoRefreshToken ''commerzbank'')))),
         holding (JObj [(''access_token'', JStr ''t'')]), [])"
proof -
  have a: "tokens demo_manager ''commerzbank'' = None"
    by (simp add: demo_manager_def init_manager_def)
  have b: "tokens (holding (JObj [(''access_token'', JStr ''t'')])) ''commerzbank''
      = Some (encrypt_token demo_manager 0 (JObj [(''access_token'', JStr ''t'')]))
    \<and> decrypt_token (holding (JObj [(''access_token'', JStr ''t'')]))
        (encrypt_token demo_manager 0 (JObj [(''access_token'', JStr ''t'')]))
      = Inr (JObj [(''access_token'', JStr ''t'')])"
    by (rule holding_decrypts) simp
  have c: "lacks [(''access_token'', JStr ''t'')] ''refresh_token''"
    by (simp add: lacks_def)
  show ?thesis
    using a b c
      refresh_needs_refresh_token [of demo_manager "''commerzbank''" primary_bank
        "HttpResponse 200 [] (Inr (JObj [(''access_token'', JStr ''new'')]))" 1]
      refresh_needs_refresh_token [of "holding (JObj [(''access_token'', JStr ''t'')])"
        "''commerzbank''" primary_bank
        "HttpResponse 200 [] (Inr (JObj [(''access_token'', JStr ''new'')]))" 1
        "encrypt_token demo_manager 0 (JObj [(''access_token'', JStr ''t'')])"
        "[(''access_token'', JStr ''t'')]"]
    by simp
qed

section \<open>A failed grant leaves the store alone\<close>

lemma exchange_request_failure:
  "exchange_request m bank_config token_data http iv = (Inl e, m1, evs) \<Longrightarrow> m1 = m"
  by (auto simp: exchange_request_def split: sum.splits http_result.splits if_splits)

lemma exchange_code_failure:
  "exchange_code_for_token m code bank_config state http iv = (Inl e, m1, evs) \<Longrightarrow> m1 = m"
  by (auto simp: exchange_code_for_token_def split: sum.splits prod.splits if_splits
      dest: exchange_request_failure)

lemma password_grant_failure:
  "password_grant_for_token m bank_config http iv = (Inl e, m1, evs) \<Longrightarrow> m1 = m"
  by (auto simp: password_grant_for_token_def Let_def split: sum.splits http_result.splits if_splits)

lemma refresh_request_failure:
  "refresh_request m bank_name stored bank_config http iv = (Inl e, m1, evs) \<Longrightarrow> m1 = m"
  by (auto simp: refresh_request_def Let_def split: sum.splits http_result.splits if_splits)

lemma refresh_token_failure:
  "refresh_token m bank_name bank_config http iv = (Inl e, m1, evs) \<Longrightarrow> m1 = m"
  by (auto simp: refresh_token_def split: option.splits sum.splits prod.splits
      dest: refresh_request_failure)

text \<open>
  C10. Whenever \<^verbatim>\<open>exchange_code_for_token\<close>, \<^verbatim>\<open>password_grant_for_token\<close> or
  \<^verbatim>\<open>refresh_token\<close> fails, with whatever exception, the manager and with it the token
  store is exactly what it was before the call.
\<close>

theorem failed_grant_keeps_store:
  "(exchange_code_for_token m code bank_config state http iv = (Inl e, m1, evs) \<longrightarrow> m1 = m)
   \<and> (password_grant_for_token m bank_config http iv = (Inl e, m1, evs) \<longrightarrow> m1 = m)
   \<and> (refresh_token m bank_name bank_config http iv = (Inl e, m1, evs) \<longrightarrow> m1 = m)"
proof (intro conjI impI)
  assume "exchange_code_for_token m code bank_config state http iv = (Inl e, m1, evs)"
  then show "m1 = m" by (rule exchange_code_failure)
next
  assume "password_grant_for_token m bank_config http iv = (Inl e, m1, evs)"
  then show "m1 = m" by (rule password_grant_failure)
next
  assume "refresh_token m bank_name bank_config http iv = (Inl e, m1, evs)"
  then show "m1 = m" by (rule refresh_token_failure)
qed

theorem failed_grant_keeps_store_witness:
  "exchange_code_for_token (holding (JObj [(''access_token'', JStr ''t''), (''refresh_token'', JStr ''r'')]))
       (JStr ''code'') primary_bank ''state'' (HttpResponse 503 ''unavailable'' (Inl ContentTypeError)) 1
     = (Inl (OAuthError (TokenExchangeFailed (OAuthError (TokenExchangeStatus 503 ''unavailable'')))),
        holding (JObj [(''access_token'', JStr ''t''), (''refresh_token'', JStr ''r'')]),
        [HttpPost (JStr ''https://bank/token'')
           [(''grant_type'', JStr ''authorization_code''), (''code'', JStr ''code''),
            (''redirect_uri'', JStr ''https://localhost:8443/callback''),
            (''client_id'', JStr ''x''), (''client_secret'', JStr ''y'')]])
   \<and> password_grant_for_token (holding (JObj [(''access_token'', JStr ''t''), (''refresh_token'', JStr ''r'')]))
       ((''username'', JStr ''u'') # (''password'', JStr ''p'') # primary_bank) (HttpRaises TimeoutError) 1
     = (Inl TimeoutError, holding (JObj [(''access_token'', JStr ''t''), (''refresh_token'', JStr ''r'')]),
        [HttpPost (JStr ''https://bank/token'')
           [(''grant_type'', JStr ''password''), (''username'', JStr ''u''), (''password'', JStr ''p''),
            (''client_id'', JStr ''x''), (''client_secret'', JStr ''y'')]])
   \<and> refresh_token (holding (JObj [(''access_token'', JStr ''t''), (''refresh_token'', JStr ''r'')]))
       ''commerzbank'' primary_bank (HttpResponse 401 ''denied'' (Inl ContentTypeError)) 1
     = (Inl (OAuthError (TokenRefreshFailed (OAuthError (TokenRefreshStatus 401 ''denied'')))),
        holding (JObj [(''access_token'', JStr ''t''), (''refresh_token'', JStr ''r'')]),
        [HttpPost (JStr ''https://bank/token'')
           [(''grant_type'', JStr ''refresh_token''), (''refresh_token'', JStr ''r''),
            (''client_id'', JStr ''x''), (''client_secret'', JStr ''y'')]])"
proof -
  let ?tok = "JObj [(''access_token'', JStr ''t''), (''refresh_token'', JStr ''r'')]"
  have h: "tokens (holding ?tok) ''commerzbank'' = Some (encrypt_token demo_manager 0 ?tok)
      \<and> decrypt_token (holding ?tok) (encrypt_token demo_manager 0 ?tok) = Inr ?tok"
    by (rule holding_decrypts) simp
  have x: "\<exists>m1. exchange_code_for_token (holding ?tok) (JStr ''code'') primary_bank
       ''state'' (HttpResponse 503 ''unavailable'' (Inl ContentTypeError)) 1
     = (Inl (OAuthError (TokenExchangeFailed (OAuthError (TokenExchangeStatus 503 ''unavailable'')))),
        m1,
        [HttpPost (JStr ''https://bank/token'')
           [(''grant_type'', JStr ''authorization_code''), (''code'', JStr ''code''),
            (''redirect_uri'', JStr ''https://localhost:8443/callback''),
            (''client_id'', JStr ''x''), (''client_secret'', JStr ''y'')]])"
    by (simp add: exchange_code_for_token_def exchange_request_def primary_bank_def dict_item_def)
  have p: "\<exists>m1. password_grant_for_token (holding ?tok)
       ((''username'', JStr ''u'') # (''password'', JStr ''p'') # primary_bank) (HttpRaises TimeoutError) 1
     = (Inl TimeoutError, m1,
        [HttpPost (JStr ''https://bank/token'')
           [(''grant_type'', JStr ''password''), (''username'', JStr ''u''), (''password'', JStr ''p''),
            (''client_id'', JStr ''x''), (''client_secret'', JStr ''y'')]])"
    by (simp add: password_grant_for_token_def primary_bank_def dict_item_def dict_get_def)
  have r: "\<exists>m1. refresh_token (holding ?tok) ''commerzbank'' primary_bank
       (HttpResponse 401 ''denied'' (Inl ContentTypeError)) 1
     = (Inl (OAuthError (TokenRefreshFailed (OAuthError (TokenRefreshStatus 401 ''denied'')))), m1,
        [HttpPost (JStr ''https://bank/token'')
           [(''grant_type'', JStr ''refresh_token''), (''refresh_token'', JStr ''r''),
            (''client_id'', JStr ''x''), (''client_secret'', JStr ''y'')]])"
    using h by (simp add: refresh_token_def refresh_request_def py_get_def dict_get_def
        primary_bank_def dict_item_def)
  show ?thesis
    using x p r failed_grant_keeps_store by metis
qed

section \<open>The store holds ciphertext only\<close>












section \<open>The CSRF state\<close>

lemma exchange_code_state:
  "exchange_code_for_token m code bank_config state1 http iv
     = exchange_code_for_token m code bank_config state2 http iv"
  by (simp add: exchange_code_for_token_def)

lemma exchange_callback_state:
  "exchange_callback m bank_config state1 result http iv
     = exchange_callback m bank_config state2 result http iv"
  by (simp add: exchange_callback_def exchange_code_state [of m _ bank_config state1 http iv state2])

lemma flow_result:
  "(fst (authorization_code_flow m bank_config app_config env),
    fst (snd (authorization_code_flow m bank_config app_config env)))
     = (case generate_authorization_url bank_config (csrf_state env) of
          Inl e \<Rightarrow> (Inl e, m)
        | Inr (u, state) \<Rightarrow> flow_tail m bank_config app_config env state)"
  by (simp add: authorization_code_flow_def flow_tail_def Let_def split: sum.splits prod.splits)

lemma flow_tail_state:
  "flow_tail m bank_config app_config (env\<lparr>csrf_state := s\<rparr>) state1
     = flow_tail m bank_config app_config env state2"
  by (simp add: flow_tail_def exchange_callback_state [of m bank_config state1 _ _ _ state2]
      cong: sum.case_cong prod.case_cong if_cong)

lemma generate_url_cases:
  "(\<exists>e. generate_authorization_url bank_config s1 = Inl e \<and> generate_authorization_url bank_config s2 = Inl e)
   \<or> (\<exists>u1 u2. generate_authorization_url bank_config s1 = Inr (u1, s1)
          \<and> generate_authorization_url bank_config s2 = Inr (u2, s2))"
  by (simp add: generate_authorization_url_def Let_def split: sum.splits)

lemma flow_generated_state:
  "fst (authorization_code_flow m bank_config app_config (env\<lparr>csrf_state := s\<rparr>))
     = fst (authorization_code_flow m bank_config app_config env)
   \<and> fst (snd (authorization_code_flow m bank_config app_config (env\<lparr>csrf_state := s\<rparr>)))
     = fst (snd (authorization_code_flow m bank_config app_config env))"
proof -
  have "(fst (authorization_code_flow m bank_config app_config (env\<lparr>csrf_state := s\<rparr>)),
         fst (snd (authorization_code_flow m bank_config app_config (env\<lparr>csrf_state := s\<rparr>))))
      = (fst (authorization_code_flow m bank_config app_config env),
         fst (snd (authorization_code_flow m bank_config app_config env)))"
    unfolding flow_result
    using generate_url_cases [of bank_config s "csrf_state env"]
    by (auto simp: flow_tail_state)
  then show ?thesis by simp
qed

text \<open>
  C8. The flow generates a state value but never compares the state of the callback with
  it: the \<open>state\<close> argument of \<^verbatim>\<open>exchange_code_for_token\<close> has no influence on its outcome;
  two callback results that agree on every field but \<^verbatim>\<open>state\<close> lead to the same result,
  the same store and the same trace; and the result and the store of the whole flow do
  not depend on the value that was generated.
\<close>

theorem callback_state_is_ignored:
  "exchange_code_for_token m code bank_config state1 http iv
     = exchange_code_for_token m code bank_config state2 http iv
   \<and> ((\<forall>k. k \<noteq> ''state'' \<longrightarrow> dict_get result1 k = dict_get result2 k) \<longrightarrow>
        exchange_callback m bank_config state1 result1 http iv
          = exchange_callback m bank_config state2 result2 http iv)
   \<and> fst (authorization_code_flow m bank_config app_config (env\<lparr>csrf_state := s\<rparr>))
        = fst (authorization_code_flow m bank_config app_config env)
   \<and> fst (snd (authorization_code_flow m bank_config app_config (env\<lparr>csrf_state := s\<rparr>)))
        = fst (snd (authorization_code_flow m bank_config app_config env))"
proof (intro conjI impI)
  show "exchange_code_for_token m code bank_config state1 http iv
     = exchange_code_for_token m code bank_config state2 http iv"
    by (rule exchange_code_state)
  show "fst (authorization_code_flow m bank_config app_config (env\<lparr>csrf_state := s\<rparr>))
        = fst (authorization_code_flow m bank_config app_config env)"
    using flow_generated_state [where env = env and s = s] by simp
  show "fst (snd (authorization_code_flow m bank_config app_config (env\<lparr>csrf_state := s\<rparr>)))
        = fst (snd (authorization_code_flow m bank_config app_config env))"
    using flow_generated_state [where env = env and s = s] by simp
  assume agree: "\<forall>k. k \<noteq> ''state'' \<longrightarrow> dict_get result1 k = dict_get result2 k"
  then have "dict_get result1 ''error'' = dict_get result2 ''error''"
    "dict_get result1 ''error_description'' = dict_get result2 ''error_description''"
    "dict_get result1 ''code'' = dict_get result2 ''code''"
    by simp_all
  then show "exchange_callback m bank_config state1 result1 http iv
          = exchange_callback m bank_config state2 result2 http iv"
    by (simp add: exchange_callback_def exchange_code_state [of m _ bank_config state1 http iv state2])
qed

theorem callback_state_is_ignored_witness:
  "exchange_callback demo_manager primary_bank ''generated''
        [(''code'', JStr ''ABC''), (''state'', JStr ''generated''), (''error'', JNull),
         (''error_description'', JNull)]
        (HttpResponse 200 [] (Inr (JObj [(''access_token'', JStr ''t'')]))) 1
     = exchange_callback demo_manager primary_bank ''generated''
        [(''code'', JStr ''ABC''), (''state'', JStr ''forged''), (''error'', JNull),
         (''error_description'', JNull)]
        (HttpResponse 200 [] (Inr (JObj [(''access_token'', JStr ''t'')]))) 1
   \<and> fst (exchange_callback demo_manager primary_bank ''generated''
        [(''code'', JStr ''ABC''), (''state'', JStr ''forged''), (''error'', JNull),
         (''error_description'', JNull)]
        (HttpResponse 200 [] (Inr (JObj [(''access_token'', JStr ''t'')]))) 1)
     = Inr (JObj [(''access_token'', JStr ''t'')])"
proof -
  have a: "\<forall>k. k \<noteq> ''state'' \<longrightarrow>
       dict_get [(''code'', JStr ''ABC''), (''state'', JStr ''generated''), (''error'', JNull),
                 (''error_description'', JNull)] k
     = dict_get [(''code'', JStr ''ABC''), (''state'', JStr ''forged''), (''error'', JNull),
                 (''error_description'', JNull)] k"
    by (simp add: dict_get_def)
  have b: "fst (exchange_callback demo_manager primary_bank ''generated''
        [(''code'', JStr ''ABC''), (''state'', JStr ''forged''), (''error'', JNull),
         (''error_description'', JNull)]
        (HttpResponse 200 [] (Inr (JObj [(''access_token'', JStr ''t'')]))) 1)
     = Inr (JObj [(''access_token'', JStr ''t'')])"
    by (simp add: exchange_callback_def exchange_code_for_token_def exchange_request_def
        primary_bank_def dict_item_def dict_get_def store_token_def)
  show ?thesis
    using a b
      callback_state_is_ignored [where m = demo_manager and bank_config = primary_bank
        and ?state1.0 = "''generated''" and ?state2.0 = "''generated''"
        and http = "HttpResponse 200 [] (Inr (JObj [(''access_token'', JStr ''t'')]))" and iv = 1
        and ?result1.0 = "[(''code'', JStr ''ABC''), (''state'', JStr ''generated''), (''error'', JNull),
          (''error_description'', JNull)]"
        and ?result2.0 = "[(''code'', JStr ''ABC''), (''state'', JStr ''forged''), (''error'', JNull),
          (''error_description'', JNull)]"]
    by blast
qed

section \<open>Validity of a stored token\<close>


lemma exchange_stores_response:
  "exchange_code_for_token demo_manager code primary_bank state (HttpResponse 200 body (Inr token)) iv
     = (Inr token,
        demo_manager\<lparr>tokens := (tokens demo_manager)(''commerzbank'' \<mapsto> encrypt_token demo_manager iv token)\<rparr>,
        [HttpPost (JStr ''https://bank/token'')
           [(''grant_type'', JStr ''authorization_code''), (''code'', code),
            (''redirect_uri'', JStr ''https://localhost:8443/callback''),
            (''client_id'', JStr ''x''), (''client_secret'', JStr ''y'')]])"
  by (simp add: exchange_code_for_token_def exchange_request_def primary_bank_def dict_item_def
      store_token_def)




section \<open>The listener waits, returns and cleans up\<close>

lemma dispatch_other: "\<not> is_callback req \<Longrightarrow> snd (dispatch req ar) = ar"
  by (simp add: dispatch_def is_callback_def handle_root_def handle_favicon_def)

lemma dispatch_callback: "is_callback req \<Longrightarrow> snd (dispatch req ar) = Some (callback_fields req)"
  by (simp add: dispatch_def is_callback_def handle_callback_def callback_fields_def)

lemma serve_all_Cons:
  "serve_all (req # reqs) ar
     = (fst (serve_all reqs (snd (dispatch req ar))),
        Served req (fst (dispatch req ar)) # snd (serve_all reqs (snd (dispatch req ar))))"
  by (simp split: prod.splits)

lemma serve_all_result:
  "fst (serve_all reqs ar) =
     (if filter is_callback reqs = [] then ar
      else Some (callback_fields (last (filter is_callback reqs))))"
proof (induction reqs arbitrary: ar)
  case Nil
  show ?case by simp
next
  case (Cons req reqs)
  show ?case
  proof (cases "is_callback req")
    case True
    then have "snd (dispatch req ar) = Some (callback_fields req)" by (rule dispatch_callback)
    then show ?thesis
      using True Cons.IH [of "Some (callback_fields req)"]
      by (simp add: serve_all_Cons del: serve_all.simps)
  next
    case False
    then have "snd (dispatch req ar) = ar" by (rule dispatch_other)
    then show ?thesis
      using False Cons.IH [of ar]
      by (simp add: serve_all_Cons del: serve_all.simps)
  qed
qed

lemma serve_all_served: "served_requests (snd (serve_all reqs ar)) = reqs"
  by (induction reqs arbitrary: ar) (simp_all add: serve_all_Cons del: serve_all.simps(2))

lemma served_requests_append [simp]:
  "served_requests (xs @ ys) = served_requests xs @ served_requests ys"
  by (induction xs rule: served_requests.induct) simp_all

lemma wait_Suc_none:
  "fst (serve_all (arr j) None) = None \<Longrightarrow>
     wait_for_callback (Suc k) j arr None
       = (fst (wait_for_callback k (Suc j) arr None),
          snd (serve_all (arr j) None) @ snd (wait_for_callback k (Suc j) arr None))"
  by (cases "serve_all (arr j) None") (simp split: prod.splits)

lemma wait_Suc_some:
  "fst (serve_all (arr j) None) = Some result \<Longrightarrow>
     wait_for_callback (Suc k) j arr None = (result, snd (serve_all (arr j) None))"
  by (cases "serve_all (arr j) None") simp

lemma upt_head: "[j..<Suc (j + k)] = j # [Suc j..<Suc (j + k)]"
  by (rule upt_conv_Cons) simp

lemma wait_times_out:
  assumes "\<forall>t. j \<le> t \<and> t < j + k \<longrightarrow> filter is_callback (arr t) = []"
  shows "fst (wait_for_callback k j arr None) = timeout_result
    \<and> served_requests (snd (wait_for_callback k j arr None)) = concat (map arr [j..<j + k])"
  using assms
proof (induction k arbitrary: j)
  case 0
  show ?case by simp
next
  case (Suc k)
  have none: "filter is_callback (arr j) = []" using Suc.prems by simp
  then have r: "fst (serve_all (arr j) None) = None" by (simp add: serve_all_result)
  have "\<forall>t. Suc j \<le> t \<and> t < Suc j + k \<longrightarrow> filter is_callback (arr t) = []"
    using Suc.prems by simp
  then have ih: "fst (wait_for_callback k (Suc j) arr None) = timeout_result
    \<and> served_requests (snd (wait_for_callback k (Suc j) arr None)) = concat (map arr [Suc j..<Suc j + k])"
    by (rule Suc.IH)
  show ?case
    using ih by (simp add: wait_Suc_none [where arr = arr and j = j, OF r] serve_all_served upt_head del: upt_Suc wait_for_callback.simps)
qed

lemma wait_captures:
  assumes "\<forall>t. j \<le> t \<and> t < j + d \<longrightarrow> filter is_callback (arr t) = []"
    and "filter is_callback (arr (j + d)) \<noteq> []" and "d < k"
  shows "fst (wait_for_callback k j arr None)
      = callback_fields (last (filter is_callback (arr (j + d))))
    \<and> served_requests (snd (wait_for_callback k j arr None)) = concat (map arr [j..<Suc (j + d)])"
  using assms
proof (induction d arbitrary: j k)
  case 0
  then obtain k1 where k: "k = Suc k1" by (cases k) auto
  have r: "fst (serve_all (arr j) None) = Some (callback_fields (last (filter is_callback (arr j))))"
    using 0 by (simp add: serve_all_result)
  show ?case
    unfolding k by (simp add: wait_Suc_some [where arr = arr and j = j, OF r] serve_all_served del: wait_for_callback.simps)
next
  case (Suc d)
  then obtain k1 where k: "k = Suc k1" by (cases k) auto
  have none: "filter is_callback (arr j) = []" using Suc.prems(1) by simp
  then have r: "fst (serve_all (arr j) None) = None" by (simp add: serve_all_result)
  have p1: "\<forall>t. Suc j \<le> t \<and> t < Suc j + d \<longrightarrow> filter is_callback (arr t) = []"
    using Suc.prems(1) by simp
  have p2: "filter is_callback (arr (Suc j + d)) \<noteq> []" using Suc.prems(2) by simp
  have p3: "d < k1" using Suc.prems(3) k by simp
  have ih: "fst (wait_for_callback k1 (Suc j) arr None)
      = callback_fields (last (filter is_callback (arr (Suc j + d))))
    \<and> served_requests (snd (wait_for_callback k1 (Suc j) arr None)) = concat (map arr [Suc j..<Suc (Suc j + d)])"
    using p1 p2 p3 by (rule Suc.IH)
  have u: "[j..<Suc (Suc (j + d))] = j # [Suc j..<Suc (Suc (j + d))]"
    using upt_head [of j "Suc d"] by simp
  show ?case
    unfolding k using ih
    by (simp add: wait_Suc_none [where arr = arr and j = j, OF r] serve_all_served u del: upt_Suc wait_for_callback.simps)
qed

lemma no_callback_filter:
  "(\<forall>req \<in> set reqs. path req \<noteq> ''/callback'') \<Longrightarrow> filter is_callback reqs = []"
  by (induction reqs) (simp_all add: is_callback_def)

lemma run_listener_started:
  "load_cert_chain env = None \<Longrightarrow> site_start env = None \<Longrightarrow>
     run_https_callback_server host port cert_path key_path timeout_seconds env
       = (Inr (fst (wait_for_callback (nat timeout_seconds) 0 (arrivals env) None)),
          ListenerStart host port # snd (wait_for_callback (nat timeout_seconds) 0 (arrivals env) None)
            @ [ListenerCleanup])"
  by (simp add: run_https_callback_server_def split: prod.splits)

lemma listener_no_callback:
  assumes "load_cert_chain env = None" and "site_start env = None"
    and "\<forall>t < nat timeout_seconds. filter is_callback (arrivals env t) = []"
  shows "fst (run_https_callback_server host port cert_path key_path timeout_seconds env) = Inr timeout_result
    \<and> served_requests (snd (run_https_callback_server host port cert_path key_path timeout_seconds env))
        = concat (map (arrivals env) [0..<nat timeout_seconds])
    \<and> last (snd (run_https_callback_server host port cert_path key_path timeout_seconds env)) = ListenerCleanup"
proof -
  have "\<forall>t. 0 \<le> t \<and> t < 0 + nat timeout_seconds \<longrightarrow> filter is_callback (arrivals env t) = []"
    using assms(3) by simp
  then have "fst (wait_for_callback (nat timeout_seconds) 0 (arrivals env) None) = timeout_result
    \<and> served_requests (snd (wait_for_callback (nat timeout_seconds) 0 (arrivals env) None))
        = concat (map (arrivals env) [0..<0 + nat timeout_seconds])"
    by (rule wait_times_out)
  then show ?thesis
    by (simp add: run_listener_started [OF assms(1,2)])
qed

lemma listener_first_callback:
  assumes "load_cert_chain env = None" and "site_start env = None"
    and "t < nat timeout_seconds"
    and "\<forall>u < t. filter is_callback (arrivals env u) = []"
    and "filter is_callback (arrivals env t) \<noteq> []"
  shows "fst (run_https_callback_server host port cert_path key_path timeout_seconds env)
      = Inr (callback_fields (last (filter is_callback (arrivals env t))))
    \<and> served_requests (snd (run_https_callback_server host port cert_path key_path timeout_seconds env))
        = concat (map (arrivals env) [0..<Suc t])
    \<and> last (snd (run_https_callback_server host port cert_path key_path timeout_seconds env)) = ListenerCleanup"
proof -
  have a: "\<forall>u. 0 \<le> u \<and> u < 0 + t \<longrightarrow> filter is_callback (arrivals env u) = []"
    using assms(4) by simp
  have b: "filter is_callback (arrivals env (0 + t)) \<noteq> []" using assms(5) by simp
  have "fst (wait_for_callback (nat timeout_seconds) 0 (arrivals env) None)
      = callback_fields (last (filter is_callback (arrivals env (0 + t))))
    \<and> served_requests (snd (wait_for_callback (nat timeout_seconds) 0 (arrivals env) None))
        = concat (map (arrivals env) [0..<Suc (0 + t)])"
    using a b assms(3) by (rule wait_captures)
  then show ?thesis
    by (simp add: run_listener_started [OF assms(1,2)] del: upt_Suc)
qed

text \<open>
  C4. If the listener is started and no request to \<^verbatim>\<open>/callback\<close> is served before
  \<open>timeout_seconds\<close> sleeps have passed, \<^verbatim>\<open>run_https_callback_server\<close> returns normally,
  with a result whose \<^verbatim>\<open>error\<close> field is \<^verbatim>\<open>"timeout"\<close>; the requests of those seconds were
  served and the runner is cleaned up.
\<close>

theorem listener_times_out:
  assumes "load_cert_chain env = None" and "site_start env = None"
    and "\<forall>t < nat timeout_seconds. \<forall>req \<in> set (arrivals env t). path req \<noteq> ''/callback''"
  shows "fst (run_https_callback_server host port cert_path key_path timeout_seconds env) = Inr timeout_result
    \<and> dict_get timeout_result ''error'' = JStr ''timeout''
    \<and> served_requests (snd (run_https_callback_server host port cert_path key_path timeout_seconds env))
        = concat (map (arrivals env) [0..<nat timeout_seconds])
    \<and> last (snd (run_https_callback_server host port cert_path key_path timeout_seconds env)) = ListenerCleanup"
proof -
  have "\<forall>t < nat timeout_seconds. filter is_callback (arrivals env t) = []"
    using assms(3) by (simp add: no_callback_filter)
  then show ?thesis
    using listener_no_callback [OF assms(1,2), of timeout_seconds host port cert_path key_path]
    by (simp add: timeout_result_def dict_get_def)
qed

theorem listener_times_out_witness:
  "fst (run_https_callback_server (JStr ''localhost'') (JInt 8443) (JStr ''cert.pem'') (JStr ''key.pem'') 2
          \<lparr>load_cert_chain = None, site_start = None,
           arrivals = (\<lambda>t. if t = 0 then [\<lparr>path = ''/'', query = []\<rparr>] else [])\<rparr>)
     = Inr [(''error'', JStr ''timeout''), (''error_description'', JStr ''No callback received'')]
   \<and> served_requests (snd (run_https_callback_server (JStr ''localhost'') (JInt 8443) (JStr ''cert.pem'')
          (JStr ''key.pem'') 2
          \<lparr>load_cert_chain = None, site_start = None,
           arrivals = (\<lambda>t. if t = 0 then [\<lparr>path = ''/'', query = []\<rparr>] else [])\<rparr>))
     = [\<lparr>path = ''/'', query = []\<rparr>]
   \<and> last (snd (run_https_callback_server (JStr ''localhost'') (JInt 8443) (JStr ''cert.pem'')
          (JStr ''key.pem'') 2
          \<lparr>load_cert_chain = None, site_start = None,
           arrivals = (\<lambda>t. if t = 0 then [\<lparr>path = ''/'', query = []\<rparr>] else [])\<rparr>))
     = ListenerCleanup"
proof -
  let ?env = "\<lparr>load_cert_chain = None, site_start = None,
           arrivals = (\<lambda>t. if t = 0 then [\<lparr>path = ''/'', query = []\<rparr>] else [])\<rparr>"
  have a: "load_cert_chain ?env = None" "site_start ?env = None" by simp_all
  have b: "\<forall>t < nat 2. \<forall>req \<in> set (arrivals ?env t). path req \<noteq> ''/callback''" by simp
  have u: "[0..<2::nat] = [0, 1]" by (simp add: numeral_2_eq_2)
  show ?thesis
    using listener_times_out [OF a b, of "JStr ''localhost''" "JInt 8443" "JStr ''cert.pem''" "JStr ''key.pem''"]
    by (simp add: timeout_result_def u)
qed

text \<open>
  C5. If the first request to \<^verbatim>\<open>/callback\<close> is served during sleep \<open>t\<close> of the wait, alone
  among the requests of that second, and carries \<^verbatim>\<open>code\<close> and \<^verbatim>\<open>state\<close>, the listener returns
  a result with exactly that code and state. The trace ends with the cleanup of the runner
  and shows as served the requests up to second \<open>t\<close> and no later one.
\<close>

theorem listener_returns_callback:
  assumes "load_cert_chain env = None" and "site_start env = None"
    and "t < nat timeout_seconds"
    and "\<forall>u < t. \<forall>req \<in> set (arrivals env u). path req \<noteq> ''/callback''"
    and "filter is_callback (arrivals env t) = [req]"
    and "query_get (query req) ''code'' = JStr code" and "query_get (query req) ''state'' = JStr state"
  shows "fst (run_https_callback_server host port cert_path key_path timeout_seconds env)
      = Inr (callback_fields req)
    \<and> dict_get (callback_fields req) ''code'' = JStr code
    \<and> dict_get (callback_fields req) ''state'' = JStr state
    \<and> served_requests (snd (run_https_callback_server host port cert_path key_path timeout_seconds env))
        = concat (map (arrivals env) [0..<Suc t])
    \<and> last (snd (run_https_callback_server host port cert_path key_path timeout_seconds env)) = ListenerCleanup"
proof -
  have a: "\<forall>u < t. filter is_callback (arrivals env u) = []"
    using assms(4) by (simp add: no_callback_filter)
  have b: "filter is_callback (arrivals env t) \<noteq> []" using assms(5) by simp
  show ?thesis
    using listener_first_callback [OF assms(1,2,3) a b, of host port cert_path key_path] assms(5,6,7)
    by (simp add: callback_fields_def dict_get_def del: upt_Suc)
qed

theorem listener_returns_callback_witness:
  "fst (run_https_callback_server (JStr ''localhost'') (JInt 8443) (JStr ''cert.pem'') (JStr ''key.pem'')
          120 signing_in)
     = Inr [(''code'', JStr ''ABC''), (''state'', JStr ''XYZ''), (''error'', JNull),
            (''error_description'', JNull)]
   \<and> served_requests (snd (run_https_callback_server (JStr ''localhost'') (JInt 8443) (JStr ''cert.pem'')
          (JStr ''key.pem'') 120 signing_in))
     = [root_request, redirect_request ''ABC'' ''XYZ'']
   \<and> last (snd (run_https_callback_server (JStr ''localhost'') (JInt 8443) (JStr ''cert.pem'')
          (JStr ''key.pem'') 120 signing_in))
     = ListenerCleanup"
proof -
  have a: "load_cert_chain signing_in = None" "site_start signing_in = None"
    by (simp_all add: signing_in_def)
  have b: "1 < nat 120" by simp
  have c: "\<forall>u < 1. \<forall>req \<in> set (arrivals signing_in u). path req \<noteq> ''/callback''"
    by (simp add: signing_in_def root_request_def)
  have d: "filter is_callback (arrivals signing_in 1) = [redirect_request ''ABC'' ''XYZ'']"
    by (simp add: signing_in_def is_callback_def redirect_request_def)
  have e: "query_get (query (redirect_request ''ABC'' ''XYZ'')) ''code'' = JStr ''ABC''"
    "query_get (query (redirect_request ''ABC'' ''XYZ'')) ''state'' = JStr ''XYZ''"
    by (simp_all add: redirect_request_def query_get_def)
  have u: "[0..<Suc 1] = [0, 1]" by simp
  have f: "callback_fields (redirect_request ''ABC'' ''XYZ'')
      = [(''code'', JStr ''ABC''), (''state'', JStr ''XYZ''), (''error'', JNull), (''error_description'', JNull)]"
    by (simp add: callback_fields_def redirect_request_def query_get_def)
  have g: "concat (map (arrivals signing_in) [0, 1]) = [root_request, redirect_request ''ABC'' ''XYZ'']"
    by (simp add: signing_in_def)
  show ?thesis
    using listener_returns_callback [OF a b c d e, of "JStr ''localhost''" "JInt 8443" "JStr ''cert.pem''" "JStr ''key.pem''"]
    unfolding u f g by simp
qed

section \<open>Grant selection\<close>

lemma exchange_callback_failure:
  "exchange_callback m bank_config state result http iv = (Inl e, m1, evs) \<Longrightarrow> m1 = m"
  by (auto simp: exchange_callback_def split: if_splits dest: exchange_code_failure)

lemma flow_failure:
  "authorization_code_flow m bank_config app_config env = (Inl e, m1, evs) \<Longrightarrow> m1 = m"
  by (auto simp: authorization_code_flow_def Let_def split: sum.splits prod.splits if_splits
      dest: exchange_callback_failure)

lemma simulate_primary_named:
  "map_of primary ''name'' = Some (JStr bank_name) \<Longrightarrow>
     simulate_primary m primary env
       = (None,
          m\<lparr>tokens := (tokens m)(bank_name \<mapsto>
               encrypt_token m (mock_iv env) (mock_token (mock_access env) (mock_refresh env)))\<rparr>,
          [LogWarning (SimulationNotForProduction bank_name)])"
  by (simp add: simulate_primary_def dict_item_def simulate_oauth_flow_def)

lemma exchange_request_http_failure:
  "\<forall>body token. http \<noteq> HttpResponse 200 body (Inr token) \<Longrightarrow>
     isl (fst (exchange_request m bank_config token_data http iv))"
  by (auto simp: exchange_request_def split: sum.splits http_result.splits)

lemma exchange_code_http_failure:
  assumes "\<forall>body token. http \<noteq> HttpResponse 200 body (Inr token)"
  shows "isl (fst (exchange_code_for_token m code bank_config state http iv))"
proof -
  have "\<And>td. isl (fst (exchange_request m bank_config td http iv))"
    using assms by (rule exchange_request_http_failure)
  then show ?thesis
    by (auto simp: exchange_code_for_token_def split: sum.splits prod.splits)
       (metis fst_conv sum.disc(2))+
qed

lemma exchange_callback_http_failure:
  "\<forall>body token. http \<noteq> HttpResponse 200 body (Inr token) \<Longrightarrow>
     isl (fst (exchange_callback m bank_config state result http iv))"
  by (simp add: exchange_callback_def exchange_code_http_failure)

lemma exchange_callback_timeout:
  "isl (fst (exchange_callback m bank_config state timeout_result http iv))"
  by (simp add: exchange_callback_def timeout_result_def dict_get_def)

lemma flow_listener_setup_failure:
  "load_cert_chain (listener env) = Some e0 \<or> site_start (listener env) = Some e0 \<Longrightarrow>
     isl (fst (authorization_code_flow m bank_config app_config env))"
  by (auto simp: authorization_code_flow_def Let_def run_https_callback_server_def
      split: sum.splits prod.splits option.splits)

lemma flow_split:
  assumes f: "authorization_code_flow m bank_config app_config env = (r, m1, evs)"
  shows "isl r \<or> (\<exists>host port state result evs0.
            run_https_callback_server host port (dict_get app_config ''tls_cert_path'')
              (dict_get app_config ''tls_key_path'') 120 (listener env) = (Inr result, evs0)
          \<and> r = fst (exchange_callback m bank_config state result (token_http env) (token_iv env)))"
proof (cases "generate_authorization_url bank_config (csrf_state env)")
  case (Inl e)
  then have "r = Inl e" using f by (simp add: authorization_code_flow_def)
  then show ?thesis by simp
next
  case (Inr u)
  obtain base params state where u: "u = ((base, params), state)" by (cases u) auto
  show ?thesis
  proof (cases "dict_item bank_config ''redirect_uri''")
    case (Inl e)
    then have "r = Inl e" using f Inr u by (simp add: authorization_code_flow_def)
    then show ?thesis by simp
  next
    case redirect: (Inr redirect)
    show ?thesis
    proof (cases "redirect_parsed env")
      case (Inl e)
      then have "r = Inl e" using f Inr u redirect by (simp add: authorization_code_flow_def)
      then show ?thesis by simp
    next
      case parsed: (Inr hp)
      obtain hostname portnum where hp: "hp = (hostname, portnum)" by (cases hp) auto
      let ?host = "if truthy hostname then hostname else JStr ''localhost''"
      let ?port = "if truthy portnum then portnum else JInt 8443"
      show ?thesis
      proof (cases "\<not> truthy (dict_get app_config ''tls_cert_path'') \<or> \<not> truthy (dict_get app_config ''tls_key_path'')")
        case True
        then have "r = Inl (OAuthError TlsNotConfigured)"
          using f Inr u redirect parsed hp by (auto simp: authorization_code_flow_def Let_def)
        then show ?thesis by simp
      next
        case False
        obtain lr evs0 where run: "run_https_callback_server ?host ?port (dict_get app_config ''tls_cert_path'')
              (dict_get app_config ''tls_key_path'') 120 (listener env) = (lr, evs0)"
          by (cases "run_https_callback_server ?host ?port (dict_get app_config ''tls_cert_path'')
              (dict_get app_config ''tls_key_path'') 120 (listener env)") auto
        show ?thesis
        proof (cases lr)
          case (Inl e)
          then have "r = Inl e"
            using f Inr u redirect parsed hp False run
            by (simp add: authorization_code_flow_def Let_def)
          then show ?thesis by simp
        next
          case result: (Inr result)
          have "r = fst (exchange_callback m bank_config state result (token_http env) (token_iv env))"
            using f Inr u redirect parsed hp False run result
            by (simp add: authorization_code_flow_def Let_def split: prod.splits)
          then show ?thesis using run result by blast
        qed
      qed
    qed
  qed
qed

lemma flow_no_callback:
  assumes "\<forall>t < 120. \<forall>req \<in> set (arrivals (listener env) t). path req \<noteq> ''/callback''"
  shows "isl (fst (authorization_code_flow m bank_config app_config env))"
proof -
  obtain r m1 evs where f: "authorization_code_flow m bank_config app_config env = (r, m1, evs)"
    by (cases "authorization_code_flow m bank_config app_config env") auto
  have nc: "\<forall>t < nat 120. filter is_callback (arrivals (listener env) t) = []"
    using assms by (simp add: no_callback_filter)
  have "isl r"
  proof (rule disjE [OF flow_split [OF f]])
    assume "isl r" then show ?thesis .
  next
    assume "\<exists>host port state result evs0.
            run_https_callback_server host port (dict_get app_config ''tls_cert_path'')
              (dict_get app_config ''tls_key_path'') 120 (listener env) = (Inr result, evs0)
          \<and> r = fst (exchange_callback m bank_config state result (token_http env) (token_iv env))"
    then obtain host port state result evs0 where
      run: "run_https_callback_server host port (dict_get app_config ''tls_cert_path'')
              (dict_get app_config ''tls_key_path'') 120 (listener env) = (Inr result, evs0)"
      and r: "r = fst (exchange_callback m bank_config state result (token_http env) (token_iv env))"
      by blast
    have started: "load_cert_chain (listener env) = None" "site_start (listener env) = None"
      using run by (auto simp: run_https_callback_server_def split: option.splits)
    have "result = timeout_result"
      using listener_no_callback [OF started nc, of host port
          "dict_get app_config ''tls_cert_path''" "dict_get app_config ''tls_key_path''"] run
      by simp
    then show ?thesis using r exchange_callback_timeout by simp
  qed
  then show ?thesis by (simp add: f)
qed

lemma flow_exchange_failure:
  assumes "\<forall>body token. token_http env \<noteq> HttpResponse 200 body (Inr token)"
  shows "isl (fst (authorization_code_flow m bank_config app_config env))"
proof -
  obtain r m1 evs where f: "authorization_code_flow m bank_config app_config env = (r, m1, evs)"
    by (cases "authorization_code_flow m bank_config app_config env") auto
  have "isl r"
    using flow_split [OF f] exchange_callback_http_failure [OF assms] by auto
  then show ?thesis by (simp add: f)
qed

lemma flow_browser_irrelevant:
  "fst (authorization_code_flow m bank_config app_config (env\<lparr>browser := b\<rparr>))
     = fst (authorization_code_flow m bank_config app_config env)
   \<and> fst (snd (authorization_code_flow m bank_config app_config (env\<lparr>browser := b\<rparr>)))
     = fst (snd (authorization_code_flow m bank_config app_config env))"
  by (auto simp: authorization_code_flow_def Let_def split: sum.splits prod.splits)

lemma main_grant_fallback:
  assumes "map_of primary ''name'' = Some (JStr bank_name)"
    and "truthy (dict_get primary ''client_id'')" and "truthy (dict_get primary ''client_secret'')"
    and "truthy (dict_get app_cfg ''tls_cert_path'')" and "truthy (dict_get app_cfg ''tls_key_path'')"
    and "authorization_code_flow m primary app_cfg (flow env) = (Inl e, m1, evs)"
  shows "main_grant m primary app_cfg env
      = (None,
         m\<lparr>tokens := (tokens m)(bank_name \<mapsto>
              encrypt_token m (mock_iv env) (mock_token (mock_access env) (mock_refresh env)))\<rparr>,
         evs @ [LogWarning (AuthCodeFlowFailed e), LogWarning (SimulationNotForProduction bank_name)])"
proof -
  have "m1 = m" using assms(6) by (rule flow_failure)
  then show ?thesis
    using assms by (simp add: main_grant_def simulate_primary_named)
qed

lemma main_grant_success:
  assumes "truthy (dict_get primary ''client_id'')" and "truthy (dict_get primary ''client_secret'')"
    and "truthy (dict_get app_cfg ''tls_cert_path'')" and "truthy (dict_get app_cfg ''tls_key_path'')"
    and "authorization_code_flow m primary app_cfg (flow env) = (Inr token, m1, evs)"
  shows "main_grant m primary app_cfg env = (None, m1, evs)"
  using assms by (simp add: main_grant_def)

lemma main_grant_no_tls:
  assumes "map_of primary ''name'' = Some (JStr bank_name)"
    and "\<not> (truthy (dict_get app_cfg ''tls_cert_path'') \<and> truthy (dict_get app_cfg ''tls_key_path''))"
  shows "main_grant m primary app_cfg env
      = (None,
         m\<lparr>tokens := (tokens m)(bank_name \<mapsto>
              encrypt_token m (mock_iv env) (mock_token (mock_access env) (mock_refresh env)))\<rparr>,
         [LogWarning (SimulationNotForProduction bank_name)])"
  using assms by (auto simp: main_grant_def simulate_primary_named)

lemma signing_in_wait:
  "wait_for_callback (Suc (Suc k)) 0 (arrivals signing_in) None
     = ([(''code'', JStr ''ABC''), (''state'', JStr ''XYZ''), (''error'', JNull),
         (''error_description'', JNull)],
        [Served root_request (Response 200 ''OAuth Callback Server Running''),
         Served (redirect_request ''ABC'' ''XYZ'')
           (Response 200 ''You can close this window and return to the app.'')])"
  by (simp add: signing_in_def root_request_def redirect_request_def dispatch_def handle_root_def
      handle_callback_def query_get_def)

lemma signing_in_run:
  "run_https_callback_server host port cert_path key_path 120 signing_in
     = (Inr [(''code'', JStr ''ABC''), (''state'', JStr ''XYZ''), (''error'', JNull),
             (''error_description'', JNull)],
        [ListenerStart host port,
         Served root_request (Response 200 ''OAuth Callback Server Running''),
         Served (redirect_request ''ABC'' ''XYZ'')
           (Response 200 ''You can close this window and return to the app.''),
         ListenerCleanup])"
proof -
  have n: "nat 120 = Suc (Suc 118)" by simp
  have s: "load_cert_chain signing_in = None" "site_start signing_in = None"
    by (simp_all add: signing_in_def)
  show ?thesis
    unfolding run_https_callback_server_def n signing_in_wait s by simp
qed

lemma primary_authorization_url:
  "generate_authorization_url primary_bank state
     = Inr ((JStr ''https://bank/auth'',
             [(''response_type'', JStr ''code''), (''client_id'', JStr ''x''),
              (''redirect_uri'', JStr ''https://localhost:8443/callback''), (''state'', JStr state)]),
            state)"
  by (simp add: generate_authorization_url_def primary_bank_def dict_item_def dict_get_def)

lemma primary_redirect_uri:
  "dict_item primary_bank ''redirect_uri'' = Inr (JStr ''https://localhost:8443/callback'')"
  by (simp add: primary_bank_def dict_item_def)

lemma signed_in_flow:
  "authorization_code_flow demo_manager primary_bank tls_app (flow (signed_in b))
     = (Inr (JObj [(''access_token'', JStr ''real'')]),
        demo_manager\<lparr>tokens := (tokens demo_manager)(''commerzbank'' \<mapsto>
           encrypt_token demo_manager 1 (JObj [(''access_token'', JStr ''real'')]))\<rparr>,
        open_browser (JStr ''https://bank/auth'')
           [(''response_type'', JStr ''code''), (''client_id'', JStr ''x''),
            (''redirect_uri'', JStr ''https://localhost:8443/callback''), (''state'', JStr ''generated'')] b
        @ [ListenerStart (JStr ''localhost'') (JInt 8443),
           Served root_request (Response 200 ''OAuth Callback Server Running''),
           Served (redirect_request ''ABC'' ''XYZ'')
             (Response 200 ''You can close this window and return to the app.''),
           ListenerCleanup,
           HttpPost (JStr ''https://bank/token'')
             [(''grant_type'', JStr ''authorization_code''), (''code'', JStr ''ABC''),
              (''redirect_uri'', JStr ''https://localhost:8443/callback''),
              (''client_id'', JStr ''x''), (''client_secret'', JStr ''y'')]])"
  by (simp add: authorization_code_flow_def primary_authorization_url primary_redirect_uri signed_in_def
      tls_app_def dict_get_def signing_in_run exchange_callback_def exchange_stores_response)

lemma primary_credentials:
  "map_of primary_bank ''name'' = Some (JStr ''commerzbank'')"
  "truthy (dict_get primary_bank ''client_id'')" "truthy (dict_get primary_bank ''client_secret'')"
  by (simp_all add: primary_bank_def dict_get_def)

lemma tls_app_paths:
  "truthy (dict_get tls_app ''tls_cert_path'') \<and> truthy (dict_get tls_app ''tls_key_path'')"
  "\<not> (truthy (dict_get no_tls_app ''tls_cert_path'') \<and> truthy (dict_get no_tls_app ''tls_key_path''))"
  by (simp_all add: tls_app_def no_tls_app_def dict_get_def)

lemma bind_fails_flow:
  "authorization_code_flow demo_manager primary_bank tls_app (flow bind_fails)
     = (Inl (OSError ''address in use''), demo_manager,
        [BrowserOpen (JStr ''https://bank/auth'')
           [(''response_type'', JStr ''code''), (''client_id'', JStr ''x''),
            (''redirect_uri'', JStr ''https://localhost:8443/callback''), (''state'', JStr ''generated'')]])"
  by (simp add: authorization_code_flow_def primary_authorization_url primary_redirect_uri bind_fails_def
      signed_in_def tls_app_def dict_get_def run_https_callback_server_def signing_in_def open_browser_def)

text \<open>
  C3, as the code has it. For a primary bank with a name, a client id and a client secret:
  when both TLS paths are set, \<^verbatim>\<open>main\<close> runs the authorization-code flow; if the flow
  returns, its token is kept; if the flow raises, whatever the exception, \<^verbatim>\<open>main\<close> logs it
  and runs the simulated grant on the unchanged store instead of ending. The flow raises
  when the certificate cannot be loaded or the listener cannot be bound, when no callback
  arrives within the 120 seconds, and when the code exchange fails. The outcome of the
  browser launch changes neither the result of the flow nor the store: a launch that fails
  is only logged. When a TLS path is not set, \<^verbatim>\<open>main\<close> runs the simulated grant directly:
  the trace holds its warning and nothing else, so no listener is started.
\<close>

theorem grant_selection:
  assumes "map_of primary ''name'' = Some (JStr bank_name)"
    and "truthy (dict_get primary ''client_id'')" and "truthy (dict_get primary ''client_secret'')"
  shows
    "(truthy (dict_get app_cfg ''tls_cert_path'') \<and> truthy (dict_get app_cfg ''tls_key_path'') \<longrightarrow>
        (authorization_code_flow m primary app_cfg (flow env) = (Inr token, m1, evs) \<longrightarrow>
           main_grant m primary app_cfg env = (None, m1, evs))
      \<and> (authorization_code_flow m primary app_cfg (flow env) = (Inl e, m1, evs) \<longrightarrow>
           main_grant m primary app_cfg env
             = (None,
                m\<lparr>tokens := (tokens m)(bank_name \<mapsto>
                     encrypt_token m (mock_iv env) (mock_token (mock_access env) (mock_refresh env)))\<rparr>,
                evs @ [LogWarning (AuthCodeFlowFailed e),
                       LogWarning (SimulationNotForProduction bank_name)]))
      \<and> (load_cert_chain (listener (flow env)) = Some e0 \<or> site_start (listener (flow env)) = Some e0 \<longrightarrow>
           isl (fst (authorization_code_flow m primary app_cfg (flow env))))
      \<and> ((\<forall>t < 120. \<forall>req \<in> set (arrivals (listener (flow env)) t). path req \<noteq> ''/callback'') \<longrightarrow>
           isl (fst (authorization_code_flow m primary app_cfg (flow env))))
      \<and> ((\<forall>body token. token_http (flow env) \<noteq> HttpResponse 200 body (Inr token)) \<longrightarrow>
           isl (fst (authorization_code_flow m primary app_cfg (flow env))))
      \<and> fst (authorization_code_flow m primary app_cfg ((flow env)\<lparr>browser := b\<rparr>))
           = fst (authorization_code_flow m primary app_cfg (flow env))
      \<and> fst (snd (authorization_code_flow m primary app_cfg ((flow env)\<lparr>browser := b\<rparr>)))
           = fst (snd (authorization_code_flow m primary app_cfg (flow env))))
   \<and> (\<not> (truthy (dict_get app_cfg ''tls_cert_path'') \<and> truthy (dict_get app_cfg ''tls_key_path'')) \<longrightarrow>
        main_grant m primary app_cfg env
          = (None,
             m\<lparr>tokens := (tokens m)(bank_name \<mapsto>
                  encrypt_token m (mock_iv env) (mock_token (mock_access env) (mock_refresh env)))\<rparr>,
             [LogWarning (SimulationNotForProduction bank_name)]))"
proof (intro conjI impI)
  assume tls: "truthy (dict_get app_cfg ''tls_cert_path'') \<and> truthy (dict_get app_cfg ''tls_key_path'')"
  {
    assume "authorization_code_flow m primary app_cfg (flow env) = (Inr token, m1, evs)"
    then show "main_grant m primary app_cfg env = (None, m1, evs)"
      using assms(2,3) tls by (intro main_grant_success) auto
  }
  {
    assume "authorization_code_flow m primary app_cfg (flow env) = (Inl e, m1, evs)"
    then show "main_grant m primary app_cfg env
             = (None,
                m\<lparr>tokens := (tokens m)(bank_name \<mapsto>
                     encrypt_token m (mock_iv env) (mock_token (mock_access env) (mock_refresh env)))\<rparr>,
                evs @ [LogWarning (AuthCodeFlowFailed e),
                       LogWarning (SimulationNotForProduction bank_name)])"
      using assms tls by (intro main_grant_fallback) auto
  }
  {
    assume "load_cert_chain (listener (flow env)) = Some e0 \<or> site_start (listener (flow env)) = Some e0"
    then show "isl (fst (authorization_code_flow m primary app_cfg (flow env)))"
      by (rule flow_listener_setup_failure)
  }
  {
    assume "\<forall>t < 120. \<forall>req \<in> set (arrivals (listener (flow env)) t). path req \<noteq> ''/callback''"
    then show "isl (fst (authorization_code_flow m primary app_cfg (flow env)))"
      by (rule flow_no_callback)
  }
  {
    assume "\<forall>body token. token_http (flow env) \<noteq> HttpResponse 200 body (Inr token)"
    then show "isl (fst (authorization_code_flow m primary app_cfg (flow env)))"
      by (rule flow_exchange_failure)
  }
  show "fst (authorization_code_flow m primary app_cfg ((flow env)\<lparr>browser := b\<rparr>))
           = fst (authorization_code_flow m primary app_cfg (flow env))"
    using flow_browser_irrelevant [where env = "flow env" and b = b] by simp
  show "fst (snd (authorization_code_flow m primary app_cfg ((flow env)\<lparr>browser := b\<rparr>)))
           = fst (snd (authorization_code_flow m primary app_cfg (flow env)))"
    using flow_browser_irrelevant [where env = "flow env" and b = b] by simp
next
  assume "\<not> (truthy (dict_get app_cfg ''tls_cert_path'') \<and> truthy (dict_get app_cfg ''tls_key_path''))"
  then show "main_grant m primary app_cfg env
          = (None,
             m\<lparr>tokens := (tokens m)(bank_name \<mapsto>
                  encrypt_token m (mock_iv env) (mock_token (mock_access env) (mock_refresh env)))\<rparr>,
             [LogWarning (SimulationNotForProduction bank_name)])"
    using assms(1) by (intro main_grant_no_tls) auto
qed

theorem grant_selection_witness:
  "map_of primary_bank ''name'' = Some (JStr ''commerzbank'')
   \<and> truthy (dict_get primary_bank ''client_id'') \<and> truthy (dict_get primary_bank ''client_secret'')
   \<and> main_grant demo_manager primary_bank no_tls_app (signed_in BrowserOpened)
       = (None,
          demo_manager\<lparr>tokens := (tokens demo_manager)(''commerzbank'' \<mapsto>
             encrypt_token demo_manager 2 (mock_token ''aaaa'' ''rrrr''))\<rparr>,
          [LogWarning (SimulationNotForProduction ''commerzbank'')])
   \<and> main_grant demo_manager primary_bank tls_app bind_fails
       = (None,
          demo_manager\<lparr>tokens := (tokens demo_manager)(''commerzbank'' \<mapsto>
             encrypt_token demo_manager 2 (mock_token ''aaaa'' ''rrrr''))\<rparr>,
          [BrowserOpen (JStr ''https://bank/auth'')
             [(''response_type'', JStr ''code''), (''client_id'', JStr ''x''),
              (''redirect_uri'', JStr ''https://localhost:8443/callback''), (''state'', JStr ''generated'')],
           LogWarning (AuthCodeFlowFailed (OSError ''address in use'')),
           LogWarning (SimulationNotForProduction ''commerzbank'')])
   \<and> fst (main_grant demo_manager primary_bank tls_app (signed_in BrowserOpened)) = None
   \<and> tokens (fst (snd (main_grant demo_manager primary_bank tls_app (signed_in BrowserOpened))))
        ''commerzbank''
       = Some (encrypt_token demo_manager 1 (JObj [(''access_token'', JStr ''real'')]))"
proof -
  have mock: "mock_iv (signed_in BrowserOpened) = 2" "mock_access (signed_in BrowserOpened) = ''aaaa''"
    "mock_refresh (signed_in BrowserOpened) = ''rrrr''"
    "mock_iv bind_fails = 2" "mock_access bind_fails = ''aaaa''" "mock_refresh bind_fails = ''rrrr''"
    by (simp_all add: signed_in_def bind_fails_def)
  show ?thesis
    using primary_credentials tls_app_paths
      grant_selection [OF primary_credentials, where app_cfg = no_tls_app and m = demo_manager
        and env = "signed_in BrowserOpened"]
      grant_selection [OF primary_credentials, where app_cfg = tls_app and m = demo_manager
        and env = bind_fails and e = "OSError ''address in use''" and ?m1.0 = demo_manager
        and evs = "[BrowserOpen (JStr ''https://bank/auth'')
           [(''response_type'', JStr ''code''), (''client_id'', JStr ''x''),
            (''redirect_uri'', JStr ''https://localhost:8443/callback''), (''state'', JStr ''generated'')]]"]
      grant_selection [OF primary_credentials, where app_cfg = tls_app and m = demo_manager
        and env = "signed_in BrowserOpened" and token = "JObj [(''access_token'', JStr ''real'')]"
        and ?m1.0 = "demo_manager\<lparr>tokens := (tokens demo_manager)(''commerzbank'' \<mapsto>
           encrypt_token demo_manager 1 (JObj [(''access_token'', JStr ''real'')]))\<rparr>"
        and evs = "open_browser (JStr ''https://bank/auth'')
           [(''response_type'', JStr ''code''), (''client_id'', JStr ''x''),
            (''redirect_uri'', JStr ''https://localhost:8443/callback''), (''state'', JStr ''generated'')] BrowserOpened
        @ [ListenerStart (JStr ''localhost'') (JInt 8443),
           Served root_request (Response 200 ''OAuth Callback Server Running''),
           Served (redirect_request ''ABC'' ''XYZ'')
             (Response 200 ''You can close this window and return to the app.''),
           ListenerCleanup,
           HttpPost (JStr ''https://bank/token'')
             [(''grant_type'', JStr ''authorization_code''), (''code'', JStr ''ABC''),
              (''redirect_uri'', JStr ''https://localhost:8443/callback''),
              (''client_id'', JStr ''x''), (''client_secret'', JStr ''y'')]]"]
    by (simp add: mock bind_fails_flow signed_in_flow)
qed

text \<open>
  The browser launch raises, the user signs in with the URL from the log, the bank answers
  200: \<^verbatim>\<open>main\<close> ends with the bank's token in the store, and the trace shows the failed
  launch and no simulated grant.
\<close>

theorem browser_failure_without_fallback:
  "main_grant demo_manager primary_bank tls_app (signed_in (BrowserRaises (OSError ''no browser'')))
     = (None,
        demo_manager\<lparr>tokens := (tokens demo_manager)(''commerzbank'' \<mapsto>
           encrypt_token demo_manager 1 (JObj [(''access_token'', JStr ''real'')]))\<rparr>,
        [BrowserOpen (JStr ''https://bank/auth'')
           [(''response_type'', JStr ''code''), (''client_id'', JStr ''x''),
            (''redirect_uri'', JStr ''https://localhost:8443/callback''), (''state'', JStr ''generated'')],
         LogWarning (BrowserLaunchFailed (OSError ''no browser'')),
         ListenerStart (JStr ''localhost'') (JInt 8443),
         Served root_request (Response 200 ''OAuth Callback Server Running''),
         Served (redirect_request ''ABC'' ''XYZ'')
           (Response 200 ''You can close this window and return to the app.''),
         ListenerCleanup,
         HttpPost (JStr ''https://bank/token'')
           [(''grant_type'', JStr ''authorization_code''), (''code'', JStr ''ABC''),
            (''redirect_uri'', JStr ''https://localhost:8443/callback''),
            (''client_id'', JStr ''x''), (''client_secret'', JStr ''y'')]])
   \<and> get_access_token
        (fst (snd (main_grant demo_manager primary_bank tls_app
                     (signed_in (BrowserRaises (OSError ''no browser''))))))
        ''commerzbank'' = JStr ''real''"
proof -
  have d: "decrypt_token demo_manager
        (encrypt_token demo_manager 1 (JObj [(''access_token'', JStr ''real'')]))
      = Inr (JObj [(''access_token'', JStr ''real'')])"
    by (rule decrypt_encrypt_token [OF demo_manager_law]) simp
  have g: "main_grant demo_manager primary_bank tls_app (signed_in (BrowserRaises (OSError ''no browser'')))
     = (None,
        demo_manager\<lparr>tokens := (tokens demo_manager)(''commerzbank'' \<mapsto>
           encrypt_token demo_manager 1 (JObj [(''access_token'', JStr ''real'')]))\<rparr>,
        open_browser (JStr ''https://bank/auth'')
           [(''response_type'', JStr ''code''), (''client_id'', JStr ''x''),
            (''redirect_uri'', JStr ''https://localhost:8443/callback''), (''state'', JStr ''generated'')]
           (BrowserRaises (OSError ''no browser''))
        @ [ListenerStart (JStr ''localhost'') (JInt 8443),
           Served root_request (Response 200 ''OAuth Callback Server Running''),
           Served (redirect_request ''ABC'' ''XYZ'')
             (Response 200 ''You can close this window and return to the app.''),
           ListenerCleanup,
           HttpPost (JStr ''https://bank/token'')
             [(''grant_type'', JStr ''authorization_code''), (''code'', JStr ''ABC''),
              (''redirect_uri'', JStr ''https://localhost:8443/callback''),
              (''client_id'', JStr ''x''), (''client_secret'', JStr ''y'')]])"
    using primary_credentials(2,3) tls_app_paths(1) signed_in_flow
    by (intro main_grant_success) auto
  show ?thesis
    unfolding g using d by (simp add: open_browser_def get_access_token_def py_get_def dict_get_def)
qed

end
